theory Spec2Isabelle
  imports Complex_Main
begin

section \<open>Data model\<close>

text \<open>
  A Python \<open>str\<close> is modelled as a \<open>string\<close>, one \<open>char\<close> per code point, so that
  \<open>length\<close> and \<open>take\<close> count what \<open>len\<close> and slicing count (for the code points
  below 256 that \<open>char\<close> has). Python's unbounded \<open>int\<close> is \<open>int\<close>. An embedding
  vector (a list of floats) is a list of reals.
\<close>

datatype error =
    ZeroDivisionError
  | EncoderError
  | DatabaseError
  | CollaboratorError string

type_synonym vector = "real list"

text \<open>
  The value stored under the key \<open>content\<close> of a logline: a plain string, some
  structured value (a list of blocks, a dict), or nothing (\<open>logline.get("content")\<close>
  is \<open>None\<close>).
\<close>

datatype content_value = Str string | Structured | NoContent

record logline =
  content :: content_value

text \<open>\<open>loglines\<close> is \<open>None\<close> when the session dict has no such key.\<close>

record session_data =
  loglines :: "logline list option"

text \<open>models.py: the three tables. Timestamps are clock readings.\<close>

record conversation =
  id_conv :: int
  session_id :: string
  source :: string
  last_updated :: nat
  message_count :: int
  html_path :: string
  first_message :: "string option"
  created_at_conv :: nat

record conversation_embedding =
  id_ce :: int
  conversation_id_ce :: int
  summary_text :: string
  embedding_ce :: vector
  created_at_ce :: nat

record message_embedding =
  id_me :: int
  conversation_id_me :: int
  message_index :: int
  message_text :: string
  embedding_me :: vector
  page_number :: int
  created_at_me :: nat

section \<open>sync.py: update detection and query extraction\<close>

text \<open>\<open>session_data.get("loglines", [])\<close>\<close>

definition get_loglines :: "session_data \<Rightarrow> logline list" where
  "get_loglines sd = (case loglines sd of None \<Rightarrow> [] | Some ls \<Rightarrow> ls)"

definition needs_update :: "conversation option \<Rightarrow> session_data \<Rightarrow> bool" where
  "needs_update existing sd =
     (case existing of
        None \<Rightarrow> True
      | Some c \<Rightarrow> int (length (get_loglines sd)) \<noteq> message_count c)"

text \<open>
  \<open>str.isspace\<close> on the code points below 256, and \<open>str.strip()\<close> without
  arguments, which removes leading and trailing whitespace.
\<close>

definition isspace :: "char \<Rightarrow> bool" where
  "isspace c = (of_char c \<in> {9, 10, 11, 12, 13, 28, 29, 30, 31, 32, 133, 160 :: nat})"

definition strip :: "string \<Rightarrow> string" where
  "strip s = rev (dropWhile isspace (rev (dropWhile isspace s)))"

text \<open>\<open>isinstance(content, str) and content.strip()\<close>\<close>

definition is_user_query :: "content_value \<Rightarrow> bool" where
  "is_user_query c = (case c of Str s \<Rightarrow> strip s \<noteq> [] | _ \<Rightarrow> False)"

text \<open>
  The loop of \<open>extract_user_queries\<close>, with its three variables \<open>user_queries\<close>,
  \<open>message_index\<close> (here \<open>message_idx\<close>) and \<open>prompt_count\<close>. \<open>//\<close> raises on a zero divisor and is
  floor division otherwise, as \<open>div\<close> on \<open>int\<close> is.
\<close>

fun extract_loop ::
  "int \<Rightarrow> logline list \<Rightarrow> (int \<times> string \<times> int) list \<Rightarrow> int \<Rightarrow> int
     \<Rightarrow> error + (int \<times> string \<times> int) list" where
  "extract_loop prompts_per_page [] user_queries message_idx prompt_count =
     Inr user_queries"
| "extract_loop prompts_per_page (l # ls) user_queries message_idx prompt_count =
     (case content l of
        Str s \<Rightarrow>
          if strip s \<noteq> [] then
            if prompts_per_page = 0 then Inl ZeroDivisionError
            else extract_loop prompts_per_page ls
                   (user_queries @
                      [(message_idx, take 1000 s, prompt_count div prompts_per_page + 1)])
                   (message_idx + 1) (prompt_count + 1)
          else extract_loop prompts_per_page ls user_queries (message_idx + 1) prompt_count
      | _ \<Rightarrow> extract_loop prompts_per_page ls user_queries (message_idx + 1) prompt_count)"

definition extract_user_queries ::
  "session_data \<Rightarrow> int \<Rightarrow> error + (int \<times> string \<times> int) list" where
  "extract_user_queries sd prompts_per_page =
     extract_loop prompts_per_page (get_loglines sd) [] 0 0"

text \<open>
  What the specification says of query extraction, written from its words: the eligible
  loglines in order, each with its position among all loglines, its text cut at 1000
  characters, and the page of its position among the eligible ones.
\<close>

definition text_of :: "content_value \<Rightarrow> string" where
  "text_of c = (case c of Str s \<Rightarrow> s | _ \<Rightarrow> [])"

definition eligible_positions :: "session_data \<Rightarrow> (nat \<times> logline) list" where
  "eligible_positions sd =
     filter (\<lambda>(i, l). is_user_query (content l)) (enumerate 0 (get_loglines sd))"

definition spec_user_queries :: "session_data \<Rightarrow> int \<Rightarrow> (int \<times> string \<times> int) list" where
  "spec_user_queries sd prompts_per_page =
     map (\<lambda>(k, (i, l)). (int i, take 1000 (text_of (content l)), int k div prompts_per_page + 1))
       (enumerate 0 (eligible_positions sd))"

section \<open>The database session\<close>

text \<open>
  A SQLAlchemy session on one connection: \<open>committed\<close> is what the database holds
  durably, \<open>working\<close> is what the open transaction of this session sees (every write
  of the session lands there first). \<open>commit\<close> makes the working tables durable,
  \<open>rollback\<close> discards them. The autoincrement sequences and the clock that
  \<open>datetime.utcnow\<close> reads are not transactional.
\<close>

record tables =
  conversations :: "conversation list"
  conversation_embeddings :: "conversation_embedding list"
  message_embeddings :: "message_embedding list"

record db_session =
  committed :: tables
  working :: tables
  clock :: nat
  seq_conv :: int
  seq_ce :: int
  seq_me :: int

definition commit :: "db_session \<Rightarrow> db_session" where
  "commit s = s\<lparr>committed := working s\<rparr>"

definition rollback :: "db_session \<Rightarrow> db_session" where
  "rollback s = s\<lparr>working := committed s\<rparr>"

text \<open>
  embeddings.py: \<open>encode_single\<close> and \<open>encode_batch\<close> hand the text to the
  sentence-transformers model, which is outside the repository; the two calls are
  parameters, and either may raise.
\<close>

record encoder =
  encode_single :: "string \<Rightarrow> error + vector"
  encode_batch :: "string list \<Rightarrow> error + vector list"

section \<open>sync.py: store_embeddings\<close>

text \<open>The two bulk deletes \<open>query(...).filter_by(conversation_id=...).delete()\<close>.\<close>

definition delete_embeddings :: "int \<Rightarrow> db_session \<Rightarrow> db_session" where
  "delete_embeddings cid s =
     s\<lparr>working := (working s)
        \<lparr>conversation_embeddings :=
           filter (\<lambda>e. conversation_id_ce e \<noteq> cid) (conversation_embeddings (working s)),
         message_embeddings :=
           filter (\<lambda>e. conversation_id_me e \<noteq> cid) (message_embeddings (working s))\<rparr>\<rparr>"

definition add_conversation_embedding ::
  "int \<Rightarrow> string \<Rightarrow> vector \<Rightarrow> db_session \<Rightarrow> db_session" where
  "add_conversation_embedding cid txt v s =
     s\<lparr>working := (working s)
        \<lparr>conversation_embeddings := conversation_embeddings (working s) @
           [\<lparr>id_ce = seq_ce s, conversation_id_ce = cid, summary_text = txt,
             embedding_ce = v, created_at_ce = clock s\<rparr>]\<rparr>,
       seq_ce := seq_ce s + 1,
       clock := clock s + 1\<rparr>"

definition add_message_embedding ::
  "int \<Rightarrow> int \<Rightarrow> string \<Rightarrow> vector \<Rightarrow> int \<Rightarrow> db_session \<Rightarrow> db_session" where
  "add_message_embedding cid msg_idx txt v page_num s =
     s\<lparr>working := (working s)
        \<lparr>message_embeddings := message_embeddings (working s) @
           [\<lparr>id_me = seq_me s, conversation_id_me = cid, message_index = msg_idx,
             message_text = txt, embedding_me = v, page_number = page_num,
             created_at_me = clock s\<rparr>]\<rparr>,
       seq_me := seq_me s + 1,
       clock := clock s + 1\<rparr>"

text \<open>The loop over \<open>zip(user_queries, embeddings)\<close>.\<close>

fun add_message_embeddings ::
  "int \<Rightarrow> ((int \<times> string \<times> int) \<times> vector) list \<Rightarrow> db_session \<Rightarrow> db_session" where
  "add_message_embeddings cid [] s = s"
| "add_message_embeddings cid (((msg_idx, msg_text, page_num), v) # rest) s =
     add_message_embeddings cid rest
       (add_message_embedding cid msg_idx (take 500 msg_text) v page_num s)"

text \<open>
  A call that may raise returns the exception, if any, together with the session as the
  call left it: the session object is mutated in place and outlives the exception.
  The encoder is what can fail in \<open>store_embeddings\<close>; the writes of embedding rows
  and the final commit are taken to succeed.
\<close>

definition store_summary ::
  "encoder \<Rightarrow> int \<Rightarrow> string \<Rightarrow> db_session \<Rightarrow> error option \<times> db_session" where
  "store_summary enc cid summary s =
     (if summary \<noteq> [] then
        (case encode_single enc summary of
           Inl e \<Rightarrow> (Some e, s)
         | Inr v \<Rightarrow> (None, add_conversation_embedding cid (take 500 summary) v s))
      else (None, s))"

definition store_messages ::
  "encoder \<Rightarrow> int \<Rightarrow> (int \<times> string \<times> int) list \<Rightarrow> db_session
     \<Rightarrow> error option \<times> db_session" where
  "store_messages enc cid user_queries s =
     (if user_queries \<noteq> [] then
        (case encode_batch enc (map (\<lambda>(_, t, _). t) user_queries) of
           Inl e \<Rightarrow> (Some e, s)
         | Inr embeddings \<Rightarrow>
             (None, add_message_embeddings cid (zip user_queries embeddings) s))
      else (None, s))"

definition store_embeddings ::
  "encoder \<Rightarrow> db_session \<Rightarrow> int \<Rightarrow> string \<Rightarrow> (int \<times> string \<times> int) list
     \<Rightarrow> error option \<times> db_session" where
  "store_embeddings enc s cid summary user_queries =
     (case store_summary enc cid summary (delete_embeddings cid s) of
        (Some e, s1) \<Rightarrow> (Some e, s1)
      | (None, s1) \<Rightarrow>
          (case store_messages enc cid user_queries s1 of
             (Some e, s2) \<Rightarrow> (Some e, s2)
           | (None, s2) \<Rightarrow> (None, commit s2)))"

text \<open>The embeddings of one conversation, as the claims read them.\<close>

definition conv_embeddings_of :: "int \<Rightarrow> tables \<Rightarrow> conversation_embedding list" where
  "conv_embeddings_of cid t =
     filter (\<lambda>e. conversation_id_ce e = cid) (conversation_embeddings t)"

definition msg_embeddings_of :: "int \<Rightarrow> tables \<Rightarrow> message_embedding list" where
  "msg_embeddings_of cid t =
     filter (\<lambda>e. conversation_id_me e = cid) (message_embeddings t)"

section \<open>sync.py: the per-session loops\<close>

text \<open>
  The collaborators of the orchestrator are functions of the package that live outside
  these files, and calls into the standard library; they are parameters. Each fallible
  one returns the exception it raised. \<open>db_rejects\<close> says whether the database
  refuses a conversation row when it is flushed (a constraint, a lost connection).
\<close>

record session_info =
  session_id_info :: "string option"

record env =
  expanduser_projects :: string
  find_local_sessions :: "string \<Rightarrow> int \<Rightarrow> error + (string \<times> string) list"
  parse_session_file :: "string \<Rightarrow> error + session_data"
  path_stem :: "string \<Rightarrow> string"
  path_join :: "string \<Rightarrow> string \<Rightarrow> string"
  makedirs :: "string \<Rightarrow> error option"
  generate_html :: "string \<Rightarrow> string \<Rightarrow> string option \<Rightarrow> error option"
  resolve_credentials :: "string option \<Rightarrow> string option \<Rightarrow> error + (string \<times> string)"
  fetch_sessions :: "string \<Rightarrow> string \<Rightarrow> error + session_info list"
  fetch_session :: "string \<Rightarrow> string \<Rightarrow> string \<Rightarrow> error + session_data"
  generate_html_from_session_data :: "session_data \<Rightarrow> string \<Rightarrow> string option \<Rightarrow> error option"
  db_rejects :: "conversation \<Rightarrow> bool"
  embedding_service :: encoder

text \<open>\<open>db_session.query(Conversation).filter_by(session_id=session_id).first()\<close>\<close>

definition query_conversation :: "db_session \<Rightarrow> string \<Rightarrow> conversation option" where
  "query_conversation s sid = find (\<lambda>c. session_id c = sid) (conversations (working s))"

text \<open>
  The branch \<open>if existing:\<close> sets four attributes and keeps the id; the write reaches
  the database with the flush of the commit that follows.
\<close>

definition update_conversation ::
  "env \<Rightarrow> conversation \<Rightarrow> int \<Rightarrow> string \<Rightarrow> string option \<Rightarrow> db_session
     \<Rightarrow> (error + int) \<times> db_session" where
  "update_conversation ev existing msg_count output_dir first_msg s =
     (let row = existing\<lparr>last_updated := clock s, message_count := msg_count,
                          html_path := output_dir, first_message := first_msg\<rparr>;
          s1 = s\<lparr>clock := clock s + 1\<rparr>
      in if db_rejects ev row then (Inl DatabaseError, s1)
         else (Inr (id_conv existing),
               s1\<lparr>working := (working s1)
                    \<lparr>conversations :=
                       map (\<lambda>c. if id_conv c = id_conv existing then row else c)
                         (conversations (working s1))\<rparr>\<rparr>))"

text \<open>The branch \<open>else:\<close> adds a row and flushes it to learn its id.\<close>

definition create_conversation ::
  "env \<Rightarrow> string \<Rightarrow> string \<Rightarrow> int \<Rightarrow> string \<Rightarrow> string option \<Rightarrow> db_session
     \<Rightarrow> (error + int) \<times> db_session" where
  "create_conversation ev sid src msg_count output_dir first_msg s =
     (let row = \<lparr>id_conv = seq_conv s, session_id = sid, source = src,
                  last_updated = clock s, message_count = msg_count,
                  html_path = output_dir, first_message = first_msg,
                  created_at_conv = clock s + 1\<rparr>;
          s1 = s\<lparr>clock := clock s + 2, seq_conv := seq_conv s + 1\<rparr>
      in if db_rejects ev row then (Inl DatabaseError, s1)
         else (Inr (seq_conv s),
               s1\<lparr>working := (working s1)
                    \<lparr>conversations := conversations (working s1) @ [row]\<rparr>\<rparr>))"

definition upsert_conversation ::
  "env \<Rightarrow> conversation option \<Rightarrow> string \<Rightarrow> string \<Rightarrow> int \<Rightarrow> string \<Rightarrow> string option
     \<Rightarrow> db_session \<Rightarrow> (error + int) \<times> db_session" where
  "upsert_conversation ev existing sid src msg_count output_dir first_msg s =
     (case existing of
        Some c \<Rightarrow> update_conversation ev c msg_count output_dir first_msg s
      | None \<Rightarrow> create_conversation ev sid src msg_count output_dir first_msg s)"

text \<open>\<open>first_message or ""\<close>\<close>

definition or_empty :: "string option \<Rightarrow> string" where
  "or_empty m = (case m of None \<Rightarrow> [] | Some t \<Rightarrow> t)"

text \<open>
  The inner \<open>try\<close>: extract the queries (with the default page size 5) and store the
  embeddings; an exception of either is caught, and the handler only prints.
\<close>

definition embed_session ::
  "env \<Rightarrow> db_session \<Rightarrow> session_data \<Rightarrow> int \<Rightarrow> string option \<Rightarrow> db_session" where
  "embed_session ev s sd cid first_msg =
     (case extract_user_queries sd 5 of
        Inl e \<Rightarrow> s
      | Inr user_queries \<Rightarrow>
          snd (store_embeddings (embedding_service ev) s cid (or_empty first_msg) user_queries))"

text \<open>\<open>summary[:200] if summary else None\<close>\<close>

definition local_first_message :: "string \<Rightarrow> string option" where
  "local_first_message summary = (if summary \<noteq> [] then Some (take 200 summary) else None)"

text \<open>
  What remains of one iteration once the session data is known, shared by both loops:
  the update or creation of the row, the commit, the embeddings. The result is
  \<open>Inr True\<close> when the iteration reaches \<open>updated_count += 1\<close> and \<open>Inl e\<close> when
  it raises \<open>e\<close> into the outer handler.
\<close>

definition record_session ::
  "env \<Rightarrow> db_session \<Rightarrow> conversation option \<Rightarrow> string \<Rightarrow> string \<Rightarrow> session_data
     \<Rightarrow> string \<Rightarrow> string option \<Rightarrow> (error + bool) \<times> db_session" where
  "record_session ev s existing sid src sd output_dir first_msg =
     (case upsert_conversation ev existing sid src (int (length (get_loglines sd)))
             output_dir first_msg s of
        (Inl e, s1) \<Rightarrow> (Inl e, s1)
      | (Inr cid, s1) \<Rightarrow> (Inr True, embed_session ev (commit s1) sd cid first_msg))"

text \<open>The body of the outer \<open>try\<close> of \<open>sync_local_sessions\<close>.\<close>

definition sync_local_session ::
  "env \<Rightarrow> string \<Rightarrow> string option \<Rightarrow> db_session \<Rightarrow> string \<times> string
     \<Rightarrow> (error + bool) \<times> db_session" where
  "sync_local_session ev storage_path github_repo s item =
     (case item of (session_path, summary) \<Rightarrow>
        (case parse_session_file ev session_path of
           Inl e \<Rightarrow> (Inl e, s)
         | Inr sd \<Rightarrow>
             let sid = path_stem ev session_path;
                 existing = query_conversation s sid
             in if \<not> needs_update existing sd then (Inr False, s)
                else
                  let output_dir = path_join ev storage_path sid
                  in (case makedirs ev output_dir of
                        Some e \<Rightarrow> (Inl e, s)
                      | None \<Rightarrow>
                          (case generate_html ev session_path output_dir github_repo of
                             Some e \<Rightarrow> (Inl e, s)
                           | None \<Rightarrow>
                               record_session ev s existing sid ''local'' sd output_dir
                                 (local_first_message summary)))))"

text \<open>
  One iteration with its handler: the \<open>except\<close> rolls the session back and continues;
  \<open>continue\<close> and the handler leave the count alone.
\<close>

definition sync_local_step ::
  "env \<Rightarrow> string \<Rightarrow> string option \<Rightarrow> db_session \<times> int \<Rightarrow> string \<times> string
     \<Rightarrow> db_session \<times> int" where
  "sync_local_step ev storage_path github_repo st item =
     (case st of (s, updated_count) \<Rightarrow>
        (case sync_local_session ev storage_path github_repo s item of
           (Inl e, s1) \<Rightarrow> (rollback s1, updated_count)
         | (Inr counted, s1) \<Rightarrow> (s1, if counted then updated_count + 1 else updated_count)))"

fun sync_local_loop ::
  "env \<Rightarrow> string \<Rightarrow> string option \<Rightarrow> (string \<times> string) list \<Rightarrow> db_session \<times> int
     \<Rightarrow> db_session \<times> int" where
  "sync_local_loop ev storage_path github_repo [] st = st"
| "sync_local_loop ev storage_path github_repo (item # items) st =
     sync_local_loop ev storage_path github_repo items
       (sync_local_step ev storage_path github_repo st item)"

definition sync_local_sessions ::
  "env \<Rightarrow> db_session \<Rightarrow> string \<Rightarrow> string option \<Rightarrow> int \<Rightarrow> string option
     \<Rightarrow> db_session \<times> int" where
  "sync_local_sessions ev s storage_path claude_projects_dir limit github_repo =
     (let dir = (case claude_projects_dir of None \<Rightarrow> expanduser_projects ev | Some d \<Rightarrow> d)
      in case find_local_sessions ev dir limit of
           Inl e \<Rightarrow> (s, 0)
         | Inr sessions \<Rightarrow> sync_local_loop ev storage_path github_repo sessions (s, 0))"

text \<open>
  The preview of a web session: the loop with \<open>break\<close> over the loglines, entered
  when \<open>session_data.get("loglines")\<close> is a non-empty list.
\<close>

fun first_string_content :: "logline list \<Rightarrow> string option" where
  "first_string_content [] = None"
| "first_string_content (l # ls) =
     (case content l of
        Str t \<Rightarrow> if t \<noteq> [] then Some (take 200 t) else first_string_content ls
      | _ \<Rightarrow> first_string_content ls)"

definition web_first_message :: "session_data \<Rightarrow> string option" where
  "web_first_message sd =
     (case loglines sd of
        None \<Rightarrow> None
      | Some ls \<Rightarrow> if ls \<noteq> [] then first_string_content ls else None)"

text \<open>The body of the outer \<open>try\<close> of \<open>sync_web_sessions\<close>.\<close>

definition sync_web_session ::
  "env \<Rightarrow> string \<Rightarrow> string option \<Rightarrow> string \<Rightarrow> string \<Rightarrow> db_session \<Rightarrow> string
     \<Rightarrow> (error + bool) \<times> db_session" where
  "sync_web_session ev storage_path github_repo token org_uuid s sid =
     (case fetch_session ev token org_uuid sid of
        Inl e \<Rightarrow> (Inl e, s)
      | Inr sd \<Rightarrow>
          let existing = query_conversation s sid
          in if \<not> needs_update existing sd then (Inr False, s)
             else
               let output_dir = path_join ev storage_path sid
               in (case makedirs ev output_dir of
                     Some e \<Rightarrow> (Inl e, s)
                   | None \<Rightarrow>
                       (case generate_html_from_session_data ev sd output_dir github_repo of
                          Some e \<Rightarrow> (Inl e, s)
                        | None \<Rightarrow>
                            record_session ev s existing sid ''web'' sd output_dir
                              (web_first_message sd))))"

text \<open>An entry without a session id, or with an empty one, is skipped before the \<open>try\<close>.\<close>

definition sync_web_step ::
  "env \<Rightarrow> string \<Rightarrow> string option \<Rightarrow> string \<Rightarrow> string \<Rightarrow> db_session \<times> int \<Rightarrow> session_info
     \<Rightarrow> db_session \<times> int" where
  "sync_web_step ev storage_path github_repo token org_uuid st info =
     (case st of (s, updated_count) \<Rightarrow>
        (case session_id_info info of
           None \<Rightarrow> (s, updated_count)
         | Some sid \<Rightarrow>
             if sid = [] then (s, updated_count)
             else
               (case sync_web_session ev storage_path github_repo token org_uuid s sid of
                  (Inl e, s1) \<Rightarrow> (rollback s1, updated_count)
                | (Inr counted, s1) \<Rightarrow>
                    (s1, if counted then updated_count + 1 else updated_count))))"

fun sync_web_loop ::
  "env \<Rightarrow> string \<Rightarrow> string option \<Rightarrow> string \<Rightarrow> string \<Rightarrow> session_info list
     \<Rightarrow> db_session \<times> int \<Rightarrow> db_session \<times> int" where
  "sync_web_loop ev storage_path github_repo token org_uuid [] st = st"
| "sync_web_loop ev storage_path github_repo token org_uuid (info # infos) st =
     sync_web_loop ev storage_path github_repo token org_uuid infos
       (sync_web_step ev storage_path github_repo token org_uuid st info)"

text \<open>The slice \<open>xs[:n]\<close>; a negative \<open>n\<close> counts from the end.\<close>

definition py_prefix :: "int \<Rightarrow> 'a list \<Rightarrow> 'a list" where
  "py_prefix n xs = (if 0 \<le> n then take (nat n) xs else take (length xs - nat (- n)) xs)"

definition sync_web_sessions ::
  "env \<Rightarrow> db_session \<Rightarrow> string \<Rightarrow> string option \<Rightarrow> string option \<Rightarrow> int \<Rightarrow> string option
     \<Rightarrow> db_session \<times> int" where
  "sync_web_sessions ev s storage_path token org_uuid limit github_repo =
     (case resolve_credentials ev token org_uuid of
        Inl e \<Rightarrow> (s, 0)
      | Inr (tok, org) \<Rightarrow>
          (case fetch_sessions ev tok org of
             Inl e \<Rightarrow> (s, 0)
           | Inr sessions \<Rightarrow>
               sync_web_loop ev storage_path github_repo tok org
                 (py_prefix limit sessions) (s, 0)))"

section \<open>search.py\<close>

text \<open>
  A float that reaches the search is a number or NaN; a number is taken as a real.
  \<open>float_lt\<close> and \<open>float_le\<close> are the comparisons \<open><\<close> and \<open><=\<close> of Python
  floats, false as soon as one side is NaN. \<open>one_minus\<close> is \<open>1 - x\<close> in SQL.
  \<open>pg_le\<close> is the order by which PostgreSQL sorts float8 values: NaN is above every
  number and equal to itself.
\<close>

datatype pyfloat = Num real | NaN

definition is_num :: "pyfloat \<Rightarrow> bool" where
  "is_num f = (case f of Num x \<Rightarrow> True | NaN \<Rightarrow> False)"

definition the_num :: "pyfloat \<Rightarrow> real" where
  "the_num f = (case f of Num x \<Rightarrow> x | NaN \<Rightarrow> 0)"

definition float_lt :: "pyfloat \<Rightarrow> pyfloat \<Rightarrow> bool" where
  "float_lt a b =
     (case a of NaN \<Rightarrow> False | Num x \<Rightarrow> (case b of NaN \<Rightarrow> False | Num y \<Rightarrow> x < y))"

definition float_le :: "pyfloat \<Rightarrow> pyfloat \<Rightarrow> bool" where
  "float_le a b =
     (case a of NaN \<Rightarrow> False | Num x \<Rightarrow> (case b of NaN \<Rightarrow> False | Num y \<Rightarrow> x \<le> y))"

definition one_minus :: "pyfloat \<Rightarrow> pyfloat" where
  "one_minus f = (case f of Num x \<Rightarrow> Num (1 - x) | NaN \<Rightarrow> NaN)"

definition pg_le :: "pyfloat \<Rightarrow> pyfloat \<Rightarrow> bool" where
  "pg_le a b =
     (case b of NaN \<Rightarrow> True | Num y \<Rightarrow> (case a of NaN \<Rightarrow> False | Num x \<Rightarrow> x \<le> y))"

text \<open>
  \<open><=>\<close> is the cosine distance operator of pgvector, which belongs to the storage
  engine and computes in 32-bit floats. The queries take the operator as a parameter
  \<open>distance\<close>: it yields a number or NaN for two vectors of one dimension (the columns
  are \<open>Vector(384)\<close>). \<open>cosine_distance\<close> is that operator in exact arithmetic:
  NaN when a norm is zero, and 1 minus the cosine otherwise. pgvector agrees with it on
  vectors whose components, products and norms its floats represent exactly, as those of
  the examples below are; elsewhere it rounds, and it yields NaN also where a norm
  overflows or underflows. The theorems are about every operator.
\<close>

definition dot :: "vector \<Rightarrow> vector \<Rightarrow> real" where
  "dot a b = sum_list (map (\<lambda>(x, y). x * y) (zip a b))"

definition cosine_distance :: "vector \<Rightarrow> vector \<Rightarrow> pyfloat" where
  "cosine_distance a b =
     (if dot a a * dot b b = 0 then NaN
      else Num (1 - dot a b / sqrt (dot a a * dot b b)))"

text \<open>\<open>LIMIT :limit\<close>; PostgreSQL refuses a negative limit.\<close>

definition sql_limit :: "int \<Rightarrow> 'a list \<Rightarrow> error + 'a list" where
  "sql_limit n xs = (if n < 0 then Inl DatabaseError else Inr (take (nat n) xs))"

text \<open>\<open>ORDER BY\<close>: an insertion sort by the given order, which keeps the order of the
  table among rows that compare equal.\<close>

fun insert_by :: "('a \<Rightarrow> 'a \<Rightarrow> bool) \<Rightarrow> 'a \<Rightarrow> 'a list \<Rightarrow> 'a list" where
  "insert_by le x [] = [x]"
| "insert_by le x (y # ys) = (if le x y then x # y # ys else y # insert_by le x ys)"

definition order_by :: "('a \<Rightarrow> 'a \<Rightarrow> bool) \<Rightarrow> 'a list \<Rightarrow> 'a list" where
  "order_by le xs = foldr (insert_by le) xs []"

type_synonym row =
  "int \<times> string \<times> string \<times> string \<times> string option \<times> pyfloat \<times> string
     \<times> int option \<times> int option"

text \<open>
  The two SELECTs: the join with \<open>conversations\<close>, ordered by distance to the query
  vector, cut at the limit.
\<close>

definition conv_query ::
  "(vector \<Rightarrow> vector \<Rightarrow> pyfloat) \<Rightarrow> db_session \<Rightarrow> vector \<Rightarrow> int \<Rightarrow> error + row list" where
  "conv_query distance s q limit =
     sql_limit limit
       (map (\<lambda>(ce, c). (conversation_id_ce ce, summary_text ce, session_id c, source c,
                        first_message c, one_minus (distance (embedding_ce ce) q),
                        ''summary'', None, None))
          (order_by (\<lambda>(ce, c) (ce', c'). pg_le (distance (embedding_ce ce) q)
                                              (distance (embedding_ce ce') q))
             (concat (map (\<lambda>ce. map (Pair ce)
                                 (filter (\<lambda>c. id_conv c = conversation_id_ce ce)
                                    (conversations (working s))))
                        (conversation_embeddings (working s))))))"

definition msg_query ::
  "(vector \<Rightarrow> vector \<Rightarrow> pyfloat) \<Rightarrow> db_session \<Rightarrow> vector \<Rightarrow> int \<Rightarrow> error + row list" where
  "msg_query distance s q limit =
     sql_limit limit
       (map (\<lambda>(me, c). (conversation_id_me me, message_text me, session_id c, source c,
                        first_message c, one_minus (distance (embedding_me me) q),
                        ''message'', Some (page_number me), Some (message_index me)))
          (order_by (\<lambda>(me, c) (me', c'). pg_le (distance (embedding_me me) q)
                                              (distance (embedding_me me') q))
             (concat (map (\<lambda>me. map (Pair me)
                                 (filter (\<lambda>c. id_conv c = conversation_id_me me)
                                    (conversations (working s))))
                        (message_embeddings (working s))))))"

record search_result =
  conversation_id_r :: int
  text_r :: string
  session_id_r :: string
  source_r :: string
  first_message_r :: "string option"
  similarity :: pyfloat
  match_type :: string
  page_number_r :: "int option"
  message_index_r :: "int option"
  url :: string

text \<open>\<open>str(n)\<close> and the format \<open>{n:03d}\<close> of an integer.\<close>

fun digits :: "nat \<Rightarrow> string" where
  "digits n =
     (if n < 10 then [char_of (48 + n)]
      else digits (n div 10) @ [char_of (48 + n mod 10)])"

definition str_int :: "int \<Rightarrow> string" where
  "str_int i = (if i < 0 then CHR ''-'' # digits (nat (- i)) else digits (nat i))"

definition format_03d :: "int \<Rightarrow> string" where
  "format_03d i =
     (let sign = (if i < 0 then ''-'' else []); body = digits (nat \<bar>i\<bar>)
      in sign @ replicate (3 - length sign - length body) CHR ''0'' @ body)"

definition conv_result :: "row \<Rightarrow> search_result" where
  "conv_result r =
     (case r of (r0, r1, r2, r3, r4, r5, r6, r7, r8) \<Rightarrow>
        \<lparr>conversation_id_r = r0, text_r = r1, session_id_r = r2, source_r = r3,
         first_message_r = r4, similarity = r5, match_type = r6, page_number_r = r7,
         message_index_r = r8, url = ''/transcript/'' @ r2\<rparr>)"

definition msg_url :: "string \<Rightarrow> int option \<Rightarrow> int option \<Rightarrow> string" where
  "msg_url sid page idx =
     (case page of
        None \<Rightarrow> ''/transcript/'' @ sid
      | Some p \<Rightarrow>
          if p \<noteq> 0 then
            ''/transcript/'' @ sid @ ''/page-'' @ format_03d p @ ''.html#msg-'' @
              (case idx of None \<Rightarrow> ''None'' | Some i \<Rightarrow> str_int i)
          else ''/transcript/'' @ sid)"

definition msg_result :: "row \<Rightarrow> search_result" where
  "msg_result r =
     (case r of (r0, r1, r2, r3, r4, r5, r6, r7, r8) \<Rightarrow>
        \<lparr>conversation_id_r = r0, text_r = r1, session_id_r = r2, source_r = r3,
         first_message_r = r4, similarity = r5, match_type = r6, page_number_r = r7,
         message_index_r = r8, url = msg_url r2 r7 r8\<rparr>)"

text \<open>
  \<open>list.sort\<close> as CPython runs it on a list of fewer than 64 elements, by \<open><\<close> on
  the keys alone: \<open>count_run\<close> takes the longest run at the front that is
  non-descending or strictly descending (and is then reversed), and \<open>binarysort\<close>
  inserts each remaining element at the place a binary search finds. A longer list is
  cut into such runs, which are merged by the same comparison.
\<close>

fun ascending_run :: "('a \<Rightarrow> 'a \<Rightarrow> bool) \<Rightarrow> 'a \<Rightarrow> 'a list \<Rightarrow> nat" where
  "ascending_run lt prev [] = 0"
| "ascending_run lt prev (x # xs) = (if lt x prev then 0 else Suc (ascending_run lt x xs))"

fun descending_run :: "('a \<Rightarrow> 'a \<Rightarrow> bool) \<Rightarrow> 'a \<Rightarrow> 'a list \<Rightarrow> nat" where
  "descending_run lt prev [] = 0"
| "descending_run lt prev (x # xs) = (if lt x prev then Suc (descending_run lt x xs) else 0)"

fun count_run :: "('a \<Rightarrow> 'a \<Rightarrow> bool) \<Rightarrow> 'a list \<Rightarrow> nat \<times> bool" where
  "count_run lt [] = (0, False)"
| "count_run lt [x] = (1, False)"
| "count_run lt (x # y # ys) =
     (if lt y x then (2 + descending_run lt y ys, True)
      else (2 + ascending_run lt y ys, False))"

function bisect :: "('a \<Rightarrow> 'a \<Rightarrow> bool) \<Rightarrow> 'a \<Rightarrow> 'a list \<Rightarrow> nat \<Rightarrow> nat \<Rightarrow> nat" where
  "bisect lt pivot xs l r =
     (if l < r then
        (let p = l + (r - l) div 2
         in if lt pivot (xs ! p) then bisect lt pivot xs l p
            else bisect lt pivot xs (p + 1) r)
      else l)"
  by pat_completeness auto
termination
  by (relation "measure (\<lambda>(lt, pivot, xs, l, r). r - l)") auto

declare bisect.simps [simp del]

definition binary_insert :: "('a \<Rightarrow> 'a \<Rightarrow> bool) \<Rightarrow> 'a \<Rightarrow> 'a list \<Rightarrow> 'a list" where
  "binary_insert lt pivot xs =
     (let l = bisect lt pivot xs 0 (length xs) in take l xs @ pivot # drop l xs)"

fun binarysort :: "('a \<Rightarrow> 'a \<Rightarrow> bool) \<Rightarrow> 'a list \<Rightarrow> 'a list \<Rightarrow> 'a list" where
  "binarysort lt sorted_part [] = sorted_part"
| "binarysort lt sorted_part (pivot # rest) =
     binarysort lt (binary_insert lt pivot sorted_part) rest"

definition cpython_sort :: "('a \<Rightarrow> 'a \<Rightarrow> bool) \<Rightarrow> 'a list \<Rightarrow> 'a list" where
  "cpython_sort lt xs =
     (if length xs < 2 then xs
      else (case count_run lt xs of
              (n, descending) \<Rightarrow>
                binarysort lt (if descending then rev (take n xs) else take n xs)
                  (drop n xs)))"

text \<open>
  \<open>results.sort(key=lambda x: x["similarity"], reverse=True)\<close>. When no key is NaN the
  keys are totally ordered and \<open>list.sort\<close> is a stable sort, here by descending
  similarity, whatever the length of the list. With a NaN among the keys the result is
  what the comparisons leave: the list is reversed, sorted as above and reversed again.
  It is a rearrangement of the list in any case, and nothing more is used of it where
  a key is NaN, apart from the example, whose four results form one run.
\<close>

definition list_sort_reverse :: "search_result list \<Rightarrow> search_result list" where
  "list_sort_reverse rs =
     (if list_all (\<lambda>r. is_num (similarity r)) rs
      then sort_key (\<lambda>r. - the_num (similarity r)) rs
      else rev (cpython_sort (\<lambda>a b. float_lt (similarity a) (similarity b)) (rev rs)))"

text \<open>\<open>results[:limit]\<close> cuts the merged list.\<close>

definition search_transcripts ::
  "(vector \<Rightarrow> vector \<Rightarrow> pyfloat) \<Rightarrow> encoder \<Rightarrow> db_session \<Rightarrow> string \<Rightarrow> int
     \<Rightarrow> error + search_result list" where
  "search_transcripts distance enc s query limit =
     (case encode_single enc query of
        Inl e \<Rightarrow> Inl e
      | Inr query_embedding \<Rightarrow>
          (case conv_query distance s query_embedding limit of
             Inl e \<Rightarrow> Inl e
           | Inr conv_results \<Rightarrow>
               (case msg_query distance s query_embedding limit of
                  Inl e \<Rightarrow> Inl e
                | Inr msg_results \<Rightarrow>
                    Inr (py_prefix limit
                           (list_sort_reverse
                              (map conv_result conv_results @ map msg_result msg_results))))))"

text \<open>
  A list of results in order of non-increasing similarity, by the comparison of floats:
  each result is at least every later one.
\<close>

definition descending :: "search_result list \<Rightarrow> bool" where
  "descending rs = sorted_wrt (\<lambda>a b. float_le (similarity b) (similarity a)) rs"

text \<open>
  What the rows of one conversation store, without the generated columns (id, vector,
  creation time): the summary texts, and the index, text and page of each message.
\<close>

definition stored_summaries :: "int \<Rightarrow> tables \<Rightarrow> string list" where
  "stored_summaries cid t = map summary_text (conv_embeddings_of cid t)"

definition stored_messages :: "int \<Rightarrow> tables \<Rightarrow> (int \<times> string \<times> int) list" where
  "stored_messages cid t =
     map (\<lambda>e. (message_index e, message_text e, page_number e)) (msg_embeddings_of cid t)"

text \<open>Every stored summary text has at most 200 characters.\<close>

definition summaries_short :: "tables \<Rightarrow> bool" where
  "summaries_short t =
     list_all (\<lambda>e. length (summary_text e) \<le> 200) (conversation_embeddings t)"

text \<open>The vectors that a search compares the query vector with.\<close>

definition stored_vectors :: "db_session \<Rightarrow> vector list" where
  "stored_vectors s =
     map embedding_ce (conversation_embeddings (working s)) @
     map embedding_me (message_embeddings (working s))"

text \<open>
  What is asked of the distance operator on the vectors of a search: that no distance
  to the query vector is NaN, and that every distance that is a number lies between
  0 and 2, as a cosine distance does.
\<close>

definition no_nan_distance ::
  "(vector \<Rightarrow> vector \<Rightarrow> pyfloat) \<Rightarrow> db_session \<Rightarrow> vector \<Rightarrow> bool" where
  "no_nan_distance distance s q = list_all (\<lambda>v. is_num (distance v q)) (stored_vectors s)"

definition distance_in_range ::
  "(vector \<Rightarrow> vector \<Rightarrow> pyfloat) \<Rightarrow> db_session \<Rightarrow> vector \<Rightarrow> bool" where
  "distance_in_range distance s q =
     list_all (\<lambda>v. case distance v q of NaN \<Rightarrow> True | Num d \<Rightarrow> 0 \<le> d \<and> d \<le> 2)
       (stored_vectors s)"

section \<open>Example data\<close>

definition example_session :: session_data where
  "example_session =
     \<lparr>loglines = Some [\<lparr>content = Str ''q0''\<rparr>, \<lparr>content = Structured\<rparr>,
                        \<lparr>content = Str ''  ''\<rparr>, \<lparr>content = Str ''q1''\<rparr>,
                        \<lparr>content = NoContent\<rparr>, \<lparr>content = Str ''q2''\<rparr>,
                        \<lparr>content = Str ''q3''\<rparr>, \<lparr>content = Str ''q4''\<rparr>,
                        \<lparr>content = Str ''q5''\<rparr>]\<rparr>"

text \<open>
  An encoder whose batch call fails on the text \<open>q2\<close>, and a database that holds one
  conversation with a summary embedding and one message embedding.
\<close>

definition example_encoder :: encoder where
  "example_encoder =
     \<lparr>encode_single = (\<lambda>t. Inr [1]),
      encode_batch = (\<lambda>ts. if ''q2'' \<in> set ts then Inl EncoderError
                             else Inr (map (\<lambda>t. [1]) ts))\<rparr>"

definition example_tables :: tables where
  "example_tables =
     \<lparr>conversations =
        [\<lparr>id_conv = 1, session_id = ''a'', source = ''local'', last_updated = 3,
          message_count = 1, html_path = ''out/a'', first_message = Some ''old summary'',
          created_at_conv = 3\<rparr>],
      conversation_embeddings =
        [\<lparr>id_ce = 1, conversation_id_ce = 1, summary_text = ''old summary'',
          embedding_ce = [1], created_at_ce = 4\<rparr>],
      message_embeddings =
        [\<lparr>id_me = 1, conversation_id_me = 1, message_index = 0,
          message_text = ''old question'', embedding_me = [1], page_number = 1,
          created_at_me = 5\<rparr>]\<rparr>"

definition example_db :: db_session where
  "example_db =
     \<lparr>committed = example_tables, working = example_tables, clock = 10,
      seq_conv = 2, seq_ce = 2, seq_me = 2\<rparr>"

text \<open>
  Collaborators for runs over local files and web sessions: two local files are found,
  the file \<open>p/c.jsonl\<close> cannot be rendered and the web session \<open>w\<close> cannot be
  fetched.
\<close>

definition example_env :: env where
  "example_env =
     \<lparr>expanduser_projects = ''home/.claude/projects'',
      find_local_sessions =
        (\<lambda>dir limit. Inr [(''p/a.jsonl'', ''new summary''), (''p/b.jsonl'', ''other'')]),
      parse_session_file =
        (\<lambda>p. if p = ''p/a.jsonl''
              then Inr \<lparr>loglines = Some [\<lparr>content = Str ''q1''\<rparr>, \<lparr>content = Str ''q2''\<rparr>]\<rparr>
              else if p = ''p/b.jsonl'' \<or> p = ''p/c.jsonl''
              then Inr \<lparr>loglines = Some [\<lparr>content = Str ''x''\<rparr>]\<rparr>
              else Inl (CollaboratorError ''no such file'')),
      path_stem = (\<lambda>p. takeWhile (\<lambda>c. c \<noteq> CHR ''.'') (drop 2 p)),
      path_join = (\<lambda>a b. a @ ''/'' @ b),
      makedirs = (\<lambda>d. None),
      generate_html =
        (\<lambda>p out repo. if p = ''p/c.jsonl'' then Some (CollaboratorError ''render'') else None),
      resolve_credentials = (\<lambda>t u. Inr (''tok'', ''org'')),
      fetch_sessions =
        (\<lambda>t u. Inr [\<lparr>session_id_info = Some ''w''\<rparr>, \<lparr>session_id_info = Some ''v''\<rparr>]),
      fetch_session =
        (\<lambda>t u sid. if sid = ''w'' then Inl (CollaboratorError ''fetch'')
                    else Inr \<lparr>loglines = Some [\<lparr>content = Structured\<rparr>,
                                               \<lparr>content = Str ''q2''\<rparr>]\<rparr>),
      generate_html_from_session_data = (\<lambda>sd out repo. None),
      db_rejects = (\<lambda>c. False),
      embedding_service = example_encoder\<rparr>"

text \<open>
  A search index of one conversation: its summary, a message at a right angle to the
  query vector and a message opposite to it. The encoder maps every query to the first
  unit vector.
\<close>

definition query_encoder :: encoder where
  "query_encoder =
     \<lparr>encode_single = (\<lambda>t. Inr [1, 0]),
      encode_batch = (\<lambda>ts. Inr (map (\<lambda>t. [1, 0]) ts))\<rparr>"

definition search_tables :: tables where
  "search_tables =
     \<lparr>conversations =
        [\<lparr>id_conv = 1, session_id = ''a'', source = ''local'', last_updated = 3,
          message_count = 4, html_path = ''out/a'', first_message = Some ''fix bug in parser'',
          created_at_conv = 3\<rparr>],
      conversation_embeddings =
        [\<lparr>id_ce = 1, conversation_id_ce = 1, summary_text = ''fix bug in parser'',
          embedding_ce = [1, 0], created_at_ce = 4\<rparr>],
      message_embeddings =
        [\<lparr>id_me = 1, conversation_id_me = 1, message_index = 0,
          message_text = ''how do I fix the parser'', embedding_me = [0, 1], page_number = 1,
          created_at_me = 5\<rparr>,
         \<lparr>id_me = 2, conversation_id_me = 1, message_index = 3,
          message_text = ''deploy to production'', embedding_me = [- 1, 0], page_number = 1,
          created_at_me = 6\<rparr>]\<rparr>"

definition search_db :: db_session where
  "search_db =
     \<lparr>committed = search_tables, working = search_tables, clock = 10,
      seq_conv = 2, seq_ce = 2, seq_me = 3\<rparr>"

definition summary_hit :: search_result where
  "summary_hit =
     \<lparr>conversation_id_r = 1, text_r = ''fix bug in parser'', session_id_r = ''a'',
      source_r = ''local'', first_message_r = Some ''fix bug in parser'', similarity = Num 1,
      match_type = ''summary'', page_number_r = None, message_index_r = None,
      url = ''/transcript/a''\<rparr>"

definition message_hit :: search_result where
  "message_hit =
     \<lparr>conversation_id_r = 1, text_r = ''how do I fix the parser'', session_id_r = ''a'',
      source_r = ''local'', first_message_r = Some ''fix bug in parser'', similarity = Num 0,
      match_type = ''message'', page_number_r = Some 1, message_index_r = Some 0,
      url = ''/transcript/a/page-001.html#msg-0''\<rparr>"

definition opposite_hit :: search_result where
  "opposite_hit =
     \<lparr>conversation_id_r = 1, text_r = ''deploy to production'', session_id_r = ''a'',
      source_r = ''local'', first_message_r = Some ''fix bug in parser'', similarity = Num (- 1),
      match_type = ''message'', page_number_r = Some 1, message_index_r = Some 3,
      url = ''/transcript/a/page-001.html#msg-3''\<rparr>"

text \<open>
  A search index with a zero vector: two conversations, the second with a summary
  embedding that is the zero vector, and two messages of the first, one along the query
  vector and one opposite to it.
\<close>

definition nan_tables :: tables where
  "nan_tables =
     \<lparr>conversations =
        [\<lparr>id_conv = 1, session_id = ''a'', source = ''local'', last_updated = 3,
          message_count = 4, html_path = ''out/a'', first_message = Some ''fix bug in parser'',
          created_at_conv = 3\<rparr>,
         \<lparr>id_conv = 2, session_id = ''b'', source = ''local'', last_updated = 4,
          message_count = 1, html_path = ''out/b'', first_message = Some ''notes'',
          created_at_conv = 4\<rparr>],
      conversation_embeddings =
        [\<lparr>id_ce = 1, conversation_id_ce = 1, summary_text = ''fix bug in parser'',
          embedding_ce = [0, 1], created_at_ce = 4\<rparr>,
         \<lparr>id_ce = 2, conversation_id_ce = 2, summary_text = ''notes'',
          embedding_ce = [0, 0], created_at_ce = 5\<rparr>],
      message_embeddings =
        [\<lparr>id_me = 1, conversation_id_me = 1, message_index = 0,
          message_text = ''parser bug'', embedding_me = [1, 0], page_number = 1,
          created_at_me = 5\<rparr>,
         \<lparr>id_me = 2, conversation_id_me = 1, message_index = 3,
          message_text = ''deploy to production'', embedding_me = [- 1, 0], page_number = 1,
          created_at_me = 6\<rparr>]\<rparr>"

definition nan_db :: db_session where
  "nan_db =
     \<lparr>committed = nan_tables, working = nan_tables, clock = 10,
      seq_conv = 3, seq_ce = 3, seq_me = 3\<rparr>"

definition orthogonal_hit :: search_result where
  "orthogonal_hit =
     \<lparr>conversation_id_r = 1, text_r = ''fix bug in parser'', session_id_r = ''a'',
      source_r = ''local'', first_message_r = Some ''fix bug in parser'', similarity = Num 0,
      match_type = ''summary'', page_number_r = None, message_index_r = None,
      url = ''/transcript/a''\<rparr>"

definition nan_hit :: search_result where
  "nan_hit =
     \<lparr>conversation_id_r = 2, text_r = ''notes'', session_id_r = ''b'',
      source_r = ''local'', first_message_r = Some ''notes'', similarity = NaN,
      match_type = ''summary'', page_number_r = None, message_index_r = None,
      url = ''/transcript/b''\<rparr>"

section \<open>Update detection\<close>

text \<open>
  C2, as the specification states it: for a stored conversation, \<open>needs_update\<close>
  compares the number of eligible user queries with the stored message count. That
  fails on a session of one user query and one structured logline whose stored count
  is 1: one eligible query, yet the code reports an update.
\<close>

theorem needs_update_eligible_counterexample:
  "needs_update
     (Some \<lparr>id_conv = 1, session_id = ''s'', source = ''local'', last_updated = 0,
            message_count = 1, html_path = ''out/s'', first_message = Some ''hi'',
            created_at_conv = 0\<rparr>)
     \<lparr>loglines = Some [\<lparr>content = Str ''hi''\<rparr>, \<lparr>content = Structured\<rparr>]\<rparr>
   \<noteq> (int (length (eligible_positions
                      \<lparr>loglines = Some [\<lparr>content = Str ''hi''\<rparr>, \<lparr>content = Structured\<rparr>]\<rparr>))
        \<noteq> message_count
            \<lparr>id_conv = 1, session_id = ''s'', source = ''local'', last_updated = 0,
             message_count = 1, html_path = ''out/s'', first_message = Some ''hi'',
             created_at_conv = 0\<rparr>)"
  by (simp add: needs_update_def get_loglines_def eligible_positions_def is_user_query_def
        strip_def isspace_def)

text \<open>
  C2, amended: \<open>needs_update\<close> is true for a new session, and for a stored
  conversation it is true exactly when the number of all loglines of the session,
  eligible or not, differs from the stored message count.
\<close>

theorem needs_update_counts_loglines:
  "needs_update None sd
   \<and> needs_update (Some c) sd = (int (length (get_loglines sd)) \<noteq> message_count c)"
  by (simp add: needs_update_def)

section \<open>Query extraction\<close>

lemma strip_nonempty_iff: "strip s \<noteq> [] \<longleftrightarrow> (\<exists>c \<in> set s. \<not> isspace c)"
proof -
  have "strip s \<noteq> [] \<longleftrightarrow> (\<exists>c \<in> set (dropWhile isspace s). \<not> isspace c)"
    by (simp add: strip_def dropWhile_eq_Nil_conv)
  also have "\<dots> \<longleftrightarrow> (\<exists>c \<in> set s. \<not> isspace c)"
  proof
    assume "\<exists>c \<in> set (dropWhile isspace s). \<not> isspace c"
    then show "\<exists>c \<in> set s. \<not> isspace c" by (blast dest: set_dropWhileD)
  next
    assume "\<exists>c \<in> set s. \<not> isspace c"
    then have ne: "dropWhile isspace s \<noteq> []" by (simp add: dropWhile_eq_Nil_conv)
    then have "\<not> isspace (hd (dropWhile isspace s))" by (rule hd_dropWhile)
    moreover have "hd (dropWhile isspace s) \<in> set (dropWhile isspace s)" using ne by simp
    ultimately show "\<exists>c \<in> set (dropWhile isspace s). \<not> isspace c" by blast
  qed
  finally show ?thesis .
qed

lemma extract_loop_eq:
  "ppp \<noteq> 0 \<Longrightarrow>
   extract_loop ppp ls uq (int m) (int p) =
     Inr (uq @ map (\<lambda>(k, (i, l)). (int i, take 1000 (text_of (content l)), int k div ppp + 1))
                 (enumerate p (filter (\<lambda>(i, l). is_user_query (content l)) (enumerate m ls))))"
proof (induction ls arbitrary: uq m p)
  case Nil
  then show ?case by simp
next
  case (Cons l ls)
  have suc: "int m + 1 = int (Suc m)" "int p + 1 = int (Suc p)" by simp_all
  show ?case
  proof (cases "content l")
    case (Str t)
    then show ?thesis
      using Cons.prems Cons.IH[of _ "Suc m" "Suc p"] Cons.IH[of _ "Suc m" p]
      by (simp add: is_user_query_def text_of_def suc del: of_nat_Suc)
  next
    case Structured
    then show ?thesis
      using Cons.prems Cons.IH[of _ "Suc m" p]
      by (simp add: is_user_query_def suc del: of_nat_Suc)
  next
    case NoContent
    then show ?thesis
      using Cons.prems Cons.IH[of _ "Suc m" p]
      by (simp add: is_user_query_def suc del: of_nat_Suc)
  qed
qed

lemma extract_user_queries_eq:
  "ppp \<noteq> 0 \<Longrightarrow> extract_user_queries sd ppp = Inr (spec_user_queries sd ppp)"
  using extract_loop_eq[of ppp "get_loglines sd" "[]" 0 0]
  by (simp add: extract_user_queries_def spec_user_queries_def eligible_positions_def)

lemma spec_page_nth:
  "k < length (spec_user_queries sd ppp) \<Longrightarrow>
   snd (snd (spec_user_queries sd ppp ! k)) = int k div ppp + 1"
  by (simp add: spec_user_queries_def nth_enumerate_eq split: prod.splits)

text \<open>
  C4: for a page size other than zero, \<open>extract_user_queries\<close> returns what the
  specification describes: one tuple for each logline whose content is a string with a
  character that is not whitespace, in order, with the position among all loglines, the
  text cut at 1000 characters and the page of the position among the eligible ones; with
  page size 5 the eligible positions 0 to 4 are on page 1 and 5 to 9 on page 2.
\<close>

theorem extract_user_queries_spec:
  "prompts_per_page \<noteq> 0 \<Longrightarrow>
   extract_user_queries sd prompts_per_page = Inr (spec_user_queries sd prompts_per_page)
   \<and> length (spec_user_queries sd prompts_per_page) = length (eligible_positions sd)
   \<and> (\<forall>l. is_user_query (content l) \<longleftrightarrow> (\<exists>t. content l = Str t \<and> (\<exists>c \<in> set t. \<not> isspace c)))
   \<and> (\<exists>qs. extract_user_queries sd 5 = Inr qs \<and>
         (\<forall>k < length qs. (k \<le> 4 \<longrightarrow> snd (snd (qs ! k)) = 1)
                        \<and> (5 \<le> k \<and> k \<le> 9 \<longrightarrow> snd (snd (qs ! k)) = 2)))"
proof (intro conjI)
  assume nz: "prompts_per_page \<noteq> 0"
  show "extract_user_queries sd prompts_per_page = Inr (spec_user_queries sd prompts_per_page)"
    using nz by (rule extract_user_queries_eq)
  show "length (spec_user_queries sd prompts_per_page) = length (eligible_positions sd)"
    by (simp add: spec_user_queries_def)
  show "\<forall>l. is_user_query (content l) \<longleftrightarrow> (\<exists>t. content l = Str t \<and> (\<exists>c \<in> set t. \<not> isspace c))"
    by (auto simp: is_user_query_def strip_nonempty_iff split: content_value.splits)
  have five: "extract_user_queries sd 5 = Inr (spec_user_queries sd 5)"
    by (rule extract_user_queries_eq) simp
  have pages: "\<forall>k < length (spec_user_queries sd 5).
      (k \<le> 4 \<longrightarrow> snd (snd (spec_user_queries sd 5 ! k)) = 1)
    \<and> (5 \<le> k \<and> k \<le> 9 \<longrightarrow> snd (snd (spec_user_queries sd 5 ! k)) = 2)"
  proof (intro allI impI conjI)
    fix k assume k: "k < length (spec_user_queries sd 5)" and "k \<le> 4"
    then show "snd (snd (spec_user_queries sd 5 ! k)) = 1"
      by (simp add: spec_page_nth)
  next
    fix k assume k: "k < length (spec_user_queries sd 5)" and b: "5 \<le> k \<and> k \<le> 9"
    have "int k div 5 = 1" using b by presburger
    then show "snd (snd (spec_user_queries sd 5 ! k)) = 2"
      using k by (simp add: spec_page_nth)
  qed
  show "\<exists>qs. extract_user_queries sd 5 = Inr qs \<and>
         (\<forall>k < length qs. (k \<le> 4 \<longrightarrow> snd (snd (qs ! k)) = 1)
                        \<and> (5 \<le> k \<and> k \<le> 9 \<longrightarrow> snd (snd (qs ! k)) = 2))"
    using five pages by blast
qed

lemma example_spec:
  "spec_user_queries example_session 5 =
     [(0, ''q0'', 1), (3, ''q1'', 1), (5, ''q2'', 1), (6, ''q3'', 1), (7, ''q4'', 1), (8, ''q5'', 2)]"
  by (simp add: spec_user_queries_def eligible_positions_def example_session_def get_loglines_def
        is_user_query_def strip_def isspace_def text_of_def enumerate_eq_zip upt_rec)

theorem extract_user_queries_spec_witness:
  "(5::int) \<noteq> 0 \<and>
   extract_user_queries example_session 5 =
     Inr [(0, ''q0'', 1), (3, ''q1'', 1), (5, ''q2'', 1), (6, ''q3'', 1), (7, ''q4'', 1), (8, ''q5'', 2)]"
proof -
  have nz: "(5::int) \<noteq> 0" by simp
  have "extract_user_queries example_session 5 = Inr (spec_user_queries example_session 5)"
    using extract_user_queries_spec[OF nz, of example_session] by (rule conjunct1)
  then show ?thesis using nz by (simp only: example_spec simp_thms)
qed


section \<open>Storing embeddings\<close>

lemma add_message_embeddings_fields:
  "committed (add_message_embeddings cid zs s) = committed s"
  "conversations (working (add_message_embeddings cid zs s)) = conversations (working s)"
  "conversation_embeddings (working (add_message_embeddings cid zs s)) =
     conversation_embeddings (working s)"
  by (induction cid zs s rule: add_message_embeddings.induct)
     (simp_all add: add_message_embedding_def)

lemma stored_messages_add:
  "stored_messages cid (working (add_message_embeddings cid zs s)) =
     stored_messages cid (working s) @ map (\<lambda>((i, t, p), v). (i, take 500 t, p)) zs"
  by (induction cid zs s rule: add_message_embeddings.induct)
     (simp_all add: add_message_embedding_def stored_messages_def msg_embeddings_of_def)

lemma stored_after_delete:
  "stored_messages cid (working (delete_embeddings cid s)) = []"
  "stored_summaries cid (working (delete_embeddings cid s)) = []"
  "committed (delete_embeddings cid s) = committed s"
  "conversations (working (delete_embeddings cid s)) = conversations (working s)"
  by (simp_all add: delete_embeddings_def stored_messages_def stored_summaries_def
        msg_embeddings_of_def conv_embeddings_of_def)

lemma delete_embeddings_idem:
  "working (delete_embeddings cid (commit s)) = working (delete_embeddings cid s)"
  by (simp add: delete_embeddings_def commit_def)

lemma store_summary_result:
  "store_summary enc cid summary s = (None, s1) \<Longrightarrow>
   stored_summaries cid (working s1) =
     stored_summaries cid (working s) @ (if summary = [] then [] else [take 500 summary])
   \<and> stored_messages cid (working s1) = stored_messages cid (working s)"
  by (auto simp: store_summary_def add_conversation_embedding_def stored_summaries_def
        stored_messages_def conv_embeddings_of_def msg_embeddings_of_def
      split: if_splits sum.splits)

lemma store_messages_result:
  "store_messages enc cid user_queries s = (None, s1) \<Longrightarrow>
   stored_summaries cid (working s1) = stored_summaries cid (working s)
   \<and> (\<exists>embeddings.
         (user_queries \<noteq> [] \<longrightarrow>
            encode_batch enc (map (\<lambda>(_, t, _). t) user_queries) = Inr embeddings)
       \<and> stored_messages cid (working s1) =
           stored_messages cid (working s) @
             map (\<lambda>((i, t, p), v). (i, take 500 t, p)) (zip user_queries embeddings))"
  by (auto simp: store_messages_def stored_messages_add add_message_embeddings_fields
        stored_summaries_def conv_embeddings_of_def
      split: if_splits sum.splits)

lemma store_embeddings_result:
  assumes "store_embeddings enc s cid summary user_queries = (None, s')"
  shows "working s' = committed s'"
    and "stored_summaries cid (committed s') = (if summary = [] then [] else [take 500 summary])"
    and "\<exists>embeddings.
           (user_queries \<noteq> [] \<longrightarrow>
              encode_batch enc (map (\<lambda>(_, t, _). t) user_queries) = Inr embeddings)
         \<and> stored_messages cid (committed s') =
             map (\<lambda>((i, t, p), v). (i, take 500 t, p)) (zip user_queries embeddings)"
proof -
  obtain s1 s2 where
    a: "store_summary enc cid summary (delete_embeddings cid s) = (None, s1)" and
    b: "store_messages enc cid user_queries s1 = (None, s2)" and
    c: "s' = commit s2"
    using assms by (auto simp: store_embeddings_def split: prod.splits option.splits)
  show "working s' = committed s'" using c by (simp add: commit_def)
  from store_summary_result[OF a] store_messages_result[OF b]
  show "stored_summaries cid (committed s') = (if summary = [] then [] else [take 500 summary])"
    using c by (simp add: commit_def stored_after_delete)
  from store_summary_result[OF a] store_messages_result[OF b]
  show "\<exists>embeddings.
           (user_queries \<noteq> [] \<longrightarrow>
              encode_batch enc (map (\<lambda>(_, t, _). t) user_queries) = Inr embeddings)
         \<and> stored_messages cid (committed s') =
             map (\<lambda>((i, t, p), v). (i, take 500 t, p)) (zip user_queries embeddings)"
    using c by (simp add: commit_def stored_after_delete)
qed

lemma map_zip_same_length:
  "length ys = length xs \<Longrightarrow> map (\<lambda>(x, y). f x) (zip xs ys) = map f xs"
  by (induction xs ys rule: list_induct2') auto


lemma store_embeddings_succeeds_iff:
  "fst (store_embeddings enc s cid summary user_queries) = None \<longleftrightarrow>
     (summary \<noteq> [] \<longrightarrow> (\<exists>v. encode_single enc summary = Inr v))
   \<and> (user_queries \<noteq> [] \<longrightarrow>
        (\<exists>embeddings. encode_batch enc (map (\<lambda>(_, t, _). t) user_queries) = Inr embeddings))"
  by (auto simp: store_embeddings_def store_summary_def store_messages_def
      split: prod.splits option.splits sum.splits if_splits)

lemma length_stored:
  "length (stored_messages cid t) = length (msg_embeddings_of cid t)"
  "length (stored_summaries cid t) = length (conv_embeddings_of cid t)"
  by (simp_all add: stored_messages_def stored_summaries_def)

text \<open>
  C3: after a successful \<open>store_embeddings\<close>, with a batch encoder that returns one
  vector for each text, the conversation has exactly as many message rows as the input
  list has entries, and they are the input's entries (text cut at 500 characters), so
  nothing of an earlier run is left; with an empty summary and an empty list the call
  succeeds and leaves no row of either kind for the conversation.
\<close>

theorem store_embeddings_row_count:
  assumes ok: "store_embeddings enc s cid summary user_queries = (None, s')"
    and len: "\<forall>embeddings. encode_batch enc (map (\<lambda>(_, t, _). t) user_queries) = Inr embeddings
                \<longrightarrow> length embeddings = length user_queries"
  shows "length (msg_embeddings_of cid (committed s')) = length user_queries
       \<and> stored_messages cid (committed s') = map (\<lambda>(i, t, p). (i, take 500 t, p)) user_queries
       \<and> (\<exists>s''. store_embeddings enc s cid [] [] = (None, s'')
               \<and> conv_embeddings_of cid (committed s'') = []
               \<and> msg_embeddings_of cid (committed s'') = [])"
proof -
  obtain embeddings where
    e: "user_queries \<noteq> [] \<longrightarrow>
          encode_batch enc (map (\<lambda>(_, t, _). t) user_queries) = Inr embeddings" and
    m: "stored_messages cid (committed s') =
          map (\<lambda>((i, t, p), v). (i, take 500 t, p)) (zip user_queries embeddings)"
    using store_embeddings_result(3)[OF ok] by blast
  have st: "stored_messages cid (committed s') =
              map (\<lambda>(i, t, p). (i, take 500 t, p)) user_queries"
  proof (cases "user_queries = []")
    case True
    then show ?thesis using m by simp
  next
    case False
    then have "length embeddings = length user_queries" using e len by blast
    then show ?thesis
      using m map_zip_same_length[of embeddings user_queries "\<lambda>(i, t, p). (i, take 500 t, p)"]
      by (simp add: case_prod_unfold)
  qed
  have cnt: "length (msg_embeddings_of cid (committed s')) = length user_queries"
    using st length_stored(1)[of cid "committed s'"] by simp
  have "fst (store_embeddings enc s cid [] []) = None"
    by (simp add: store_embeddings_succeeds_iff)
  then obtain s'' where e0: "store_embeddings enc s cid [] [] = (None, s'')"
    by (cases "store_embeddings enc s cid [] []") simp
  have "stored_summaries cid (committed s'') = []"
    using store_embeddings_result(2)[OF e0] by simp
  moreover have "stored_messages cid (committed s'') = []"
    using store_embeddings_result(3)[OF e0] by simp
  ultimately have "conv_embeddings_of cid (committed s'') = []
                 \<and> msg_embeddings_of cid (committed s'') = []"
    by (simp add: stored_summaries_def stored_messages_def)
  then show ?thesis using st cnt e0 by blast
qed

lemma example_store:
  "store_embeddings example_encoder example_db 1 ''new summary'' [(0, ''q1'', 1), (2, ''q3'', 1)] =
     (None,
      snd (store_embeddings example_encoder example_db 1 ''new summary''
             [(0, ''q1'', 1), (2, ''q3'', 1)]))"
  by (simp add: store_embeddings_def store_summary_def store_messages_def example_encoder_def
        split: prod.splits)

theorem store_embeddings_row_count_witness:
  "length (msg_embeddings_of 1
     (committed (snd (store_embeddings example_encoder example_db 1 ''new summary''
                        [(0, ''q1'', 1), (2, ''q3'', 1)])))) = 2
   \<and> stored_messages 1
       (committed (snd (store_embeddings example_encoder example_db 1 ''new summary''
                          [(0, ''q1'', 1), (2, ''q3'', 1)]))) = [(0, ''q1'', 1), (2, ''q3'', 1)]"
proof -
  have len: "\<forall>embeddings.
      encode_batch example_encoder (map (\<lambda>(_, t, _). t) [(0::int, ''q1'', 1::int), (2, ''q3'', 1)])
        = Inr embeddings
      \<longrightarrow> length embeddings = length [(0::int, ''q1'', 1::int), (2, ''q3'', 1)]"
    by (auto simp: example_encoder_def)
  show ?thesis
    using store_embeddings_row_count[OF example_store len] by simp
qed

text \<open>
  C8: after a successful \<open>store_embeddings\<close>, a second call with the same inputs
  succeeds too and leaves the same stored summary texts, the same message indices,
  texts and page numbers, and the same row counts for the conversation.
\<close>

theorem store_embeddings_idempotent:
  assumes first: "store_embeddings enc s cid summary user_queries = (None, s1)"
  shows "\<exists>s2. store_embeddings enc s1 cid summary user_queries = (None, s2)
            \<and> stored_summaries cid (committed s2) = stored_summaries cid (committed s1)
            \<and> stored_messages cid (committed s2) = stored_messages cid (committed s1)
            \<and> length (conv_embeddings_of cid (committed s2)) =
                length (conv_embeddings_of cid (committed s1))
            \<and> length (msg_embeddings_of cid (committed s2)) =
                length (msg_embeddings_of cid (committed s1))"
proof -
  have "fst (store_embeddings enc s cid summary user_queries) = None"
    using first by simp
  then have "fst (store_embeddings enc s1 cid summary user_queries) = None"
    by (simp only: store_embeddings_succeeds_iff)
  then obtain s2 where second: "store_embeddings enc s1 cid summary user_queries = (None, s2)"
    by (cases "store_embeddings enc s1 cid summary user_queries") simp
  have sm: "stored_summaries cid (committed s2) = stored_summaries cid (committed s1)"
    using store_embeddings_result(2)[OF first] store_embeddings_result(2)[OF second] by simp
  have ms: "stored_messages cid (committed s2) = stored_messages cid (committed s1)"
  proof (cases "user_queries = []")
    case True
    then show ?thesis
      using store_embeddings_result(3)[OF first] store_embeddings_result(3)[OF second] by simp
  next
    case False
    then show ?thesis
      using store_embeddings_result(3)[OF first] store_embeddings_result(3)[OF second] by auto
  qed
  have "length (conv_embeddings_of cid (committed s2)) =
          length (conv_embeddings_of cid (committed s1))"
    using sm length_stored(2) by metis
  moreover have "length (msg_embeddings_of cid (committed s2)) =
          length (msg_embeddings_of cid (committed s1))"
    using ms length_stored(1) by metis
  ultimately show ?thesis using second sm ms by blast
qed

theorem store_embeddings_idempotent_witness:
  "stored_summaries 1
     (committed (snd (store_embeddings example_encoder
        (snd (store_embeddings example_encoder example_db 1 ''new summary''
                [(0, ''q1'', 1), (2, ''q3'', 1)]))
        1 ''new summary'' [(0, ''q1'', 1), (2, ''q3'', 1)])))
   = [''new summary'']
   \<and> stored_messages 1
     (committed (snd (store_embeddings example_encoder
        (snd (store_embeddings example_encoder example_db 1 ''new summary''
                [(0, ''q1'', 1), (2, ''q3'', 1)]))
        1 ''new summary'' [(0, ''q1'', 1), (2, ''q3'', 1)])))
   = [(0, ''q1'', 1), (2, ''q3'', 1)]"
proof -
  have once: "stored_summaries 1
       (committed (snd (store_embeddings example_encoder example_db 1 ''new summary''
                          [(0, ''q1'', 1), (2, ''q3'', 1)]))) = [''new summary'']
     \<and> stored_messages 1
       (committed (snd (store_embeddings example_encoder example_db 1 ''new summary''
                          [(0, ''q1'', 1), (2, ''q3'', 1)]))) = [(0, ''q1'', 1), (2, ''q3'', 1)]"
    by (simp add: store_embeddings_def store_summary_def store_messages_def example_encoder_def
          example_db_def example_tables_def delete_embeddings_def add_conversation_embedding_def
          add_message_embedding_def commit_def stored_summaries_def stored_messages_def
          conv_embeddings_of_def msg_embeddings_of_def)
  from store_embeddings_idempotent[OF example_store]
  obtain s2 where
    "store_embeddings example_encoder
        (snd (store_embeddings example_encoder example_db 1 ''new summary''
                [(0, ''q1'', 1), (2, ''q3'', 1)]))
        1 ''new summary'' [(0, ''q1'', 1), (2, ''q3'', 1)] = (None, s2)"
    "stored_summaries 1 (committed s2) =
       stored_summaries 1 (committed (snd (store_embeddings example_encoder example_db 1
          ''new summary'' [(0, ''q1'', 1), (2, ''q3'', 1)])))"
    "stored_messages 1 (committed s2) =
       stored_messages 1 (committed (snd (store_embeddings example_encoder example_db 1
          ''new summary'' [(0, ''q1'', 1), (2, ''q3'', 1)])))"
    by blast
  then show ?thesis using once by simp
qed


section \<open>The session loops\<close>

lemma store_embeddings_committed_on_failure:
  "store_embeddings enc s cid summary user_queries = (Some e, s') \<Longrightarrow>
   committed s' = committed s \<and> conversations (working s') = conversations (working s)"
  by (auto simp: store_embeddings_def store_summary_def store_messages_def
        delete_embeddings_def add_conversation_embedding_def
      split: prod.splits option.splits sum.splits if_splits)

lemma upsert_failure:
  "upsert_conversation ev existing sid src n output_dir first_msg s = (Inl e, s1) \<Longrightarrow>
   committed s1 = committed s \<and> working s1 = working s"
  by (auto simp: upsert_conversation_def update_conversation_def create_conversation_def Let_def
      split: option.splits if_splits)

lemma record_session_failure:
  "record_session ev s existing sid src sd output_dir first_msg = (Inl e, s1) \<Longrightarrow>
   committed s1 = committed s \<and> working s1 = working s"
  by (auto simp: record_session_def split: prod.splits sum.splits dest: upsert_failure)

lemma sync_local_session_failure:
  "sync_local_session ev storage_path github_repo s item = (Inl e, s1) \<Longrightarrow>
   committed s1 = committed s \<and> working s1 = working s"
  by (auto simp: sync_local_session_def Let_def
      split: prod.splits sum.splits option.splits if_splits dest: record_session_failure)

lemma sync_web_session_failure:
  "sync_web_session ev storage_path github_repo token org_uuid s sid = (Inl e, s1) \<Longrightarrow>
   committed s1 = committed s \<and> working s1 = working s"
  by (auto simp: sync_web_session_def Let_def
      split: prod.splits sum.splits option.splits if_splits dest: record_session_failure)

lemma parse_failure_raises:
  "parse_session_file ev session_path = Inl e \<Longrightarrow>
   sync_local_session ev storage_path github_repo s (session_path, summary) = (Inl e, s)"
  by (simp add: sync_local_session_def)

lemma render_failure_raises:
  "parse_session_file ev session_path = Inr sd \<Longrightarrow>
   needs_update (query_conversation s (path_stem ev session_path)) sd \<Longrightarrow>
   makedirs ev (path_join ev storage_path (path_stem ev session_path)) = None \<Longrightarrow>
   generate_html ev session_path (path_join ev storage_path (path_stem ev session_path))
     github_repo = Some e \<Longrightarrow>
   sync_local_session ev storage_path github_repo s (session_path, summary) = (Inl e, s)"
  by (simp add: sync_local_session_def Let_def)

lemma database_failure_raises:
  "upsert_conversation ev existing sid src (int (length (get_loglines sd))) output_dir
     first_msg s = (Inl e, s1) \<Longrightarrow>
   record_session ev s existing sid src sd output_dir first_msg = (Inl e, s1)"
  by (simp add: record_session_def)

text \<open>
  C6: when the body of an iteration raises (which it can do only before its commit: at
  the parse or fetch, at the rendering, at the write of the conversation row), the loop
  goes on with the remaining sessions from the rolled-back session and the same count;
  the committed tables are those from before the iteration and the working tables are
  equal to them again, so the conversation row is unchanged. Both loops return a count
  and have no exception to raise.
\<close>

theorem session_failure_isolated:
  "(sync_local_session ev storage_path github_repo s item = (Inl e, s1) \<longrightarrow>
      sync_local_loop ev storage_path github_repo (item # items) (s, n) =
        sync_local_loop ev storage_path github_repo items (rollback s1, n)
      \<and> committed (rollback s1) = committed s
      \<and> working (rollback s1) = committed s)
   \<and> (sid \<noteq> [] \<and>
       sync_web_session ev storage_path github_repo token org_uuid s sid = (Inl e, s1) \<longrightarrow>
      sync_web_loop ev storage_path github_repo token org_uuid
          (\<lparr>session_id_info = Some sid\<rparr> # infos) (s, n) =
        sync_web_loop ev storage_path github_repo token org_uuid infos (rollback s1, n)
      \<and> committed (rollback s1) = committed s
      \<and> working (rollback s1) = committed s)"
proof (intro conjI impI)
  assume a: "sync_local_session ev storage_path github_repo s item = (Inl e, s1)"
  show "sync_local_loop ev storage_path github_repo (item # items) (s, n) =
        sync_local_loop ev storage_path github_repo items (rollback s1, n)"
    using a by (simp add: sync_local_step_def)
  show "committed (rollback s1) = committed s" "working (rollback s1) = committed s"
    using sync_local_session_failure[OF a] by (simp_all add: rollback_def)
next
  assume b: "sid \<noteq> [] \<and>
     sync_web_session ev storage_path github_repo token org_uuid s sid = (Inl e, s1)"
  then have b': "sync_web_session ev storage_path github_repo token org_uuid s sid = (Inl e, s1)"
    by simp
  show "sync_web_loop ev storage_path github_repo token org_uuid
          (\<lparr>session_id_info = Some sid\<rparr> # infos) (s, n) =
        sync_web_loop ev storage_path github_repo token org_uuid infos (rollback s1, n)"
    using b by (simp add: sync_web_step_def)
  show "committed (rollback s1) = committed s" "working (rollback s1) = committed s"
    using sync_web_session_failure[OF b'] by (simp_all add: rollback_def)
qed

text \<open>
  C7: when the conversation row has been written and committed and
  \<open>store_embeddings\<close> then raises, the iteration still counts the session, the
  committed tables hold the conversation update (they are the working tables of the
  upsert), and the loop goes on with the remaining sessions, in the local and in the
  web loop.
\<close>

theorem embedding_failure_keeps_update:
  assumes up: "upsert_conversation ev existing sid src (int (length (get_loglines sd)))
                 output_dir first_msg s = (Inr cid, s1)"
    and ex: "extract_user_queries sd 5 = Inr user_queries"
    and fail: "store_embeddings (embedding_service ev) (commit s1) cid (or_empty first_msg)
                 user_queries = (Some e, s2)"
  shows "record_session ev s existing sid src sd output_dir first_msg = (Inr True, s2)
       \<and> committed s2 = working s1
       \<and> (parse_session_file ev session_path = Inr sd
            \<and> sid = path_stem ev session_path
            \<and> existing = query_conversation s sid
            \<and> needs_update existing sd
            \<and> output_dir = path_join ev storage_path sid
            \<and> makedirs ev output_dir = None
            \<and> generate_html ev session_path output_dir github_repo = None
            \<and> src = ''local''
            \<and> first_msg = local_first_message summary
          \<longrightarrow> sync_local_loop ev storage_path github_repo ((session_path, summary) # items) (s, n)
              = sync_local_loop ev storage_path github_repo items (s2, n + 1))
       \<and> (sid \<noteq> []
            \<and> fetch_session ev token org_uuid sid = Inr sd
            \<and> existing = query_conversation s sid
            \<and> needs_update existing sd
            \<and> output_dir = path_join ev storage_path sid
            \<and> makedirs ev output_dir = None
            \<and> generate_html_from_session_data ev sd output_dir github_repo = None
            \<and> src = ''web''
            \<and> first_msg = web_first_message sd
          \<longrightarrow> sync_web_loop ev storage_path github_repo token org_uuid
                (\<lparr>session_id_info = Some sid\<rparr> # infos) (s, n)
              = sync_web_loop ev storage_path github_repo token org_uuid infos (s2, n + 1))"
proof -
  have r: "record_session ev s existing sid src sd output_dir first_msg = (Inr True, s2)"
    using up ex fail by (simp add: record_session_def embed_session_def)
  have c: "committed s2 = working s1"
    using store_embeddings_committed_on_failure[OF fail] by (simp add: commit_def)
  have l: "parse_session_file ev session_path = Inr sd
            \<and> sid = path_stem ev session_path
            \<and> existing = query_conversation s sid
            \<and> needs_update existing sd
            \<and> output_dir = path_join ev storage_path sid
            \<and> makedirs ev output_dir = None
            \<and> generate_html ev session_path output_dir github_repo = None
            \<and> src = ''local''
            \<and> first_msg = local_first_message summary
          \<longrightarrow> sync_local_loop ev storage_path github_repo ((session_path, summary) # items) (s, n)
              = sync_local_loop ev storage_path github_repo items (s2, n + 1)"
    using r by (auto simp: sync_local_step_def sync_local_session_def Let_def)
  have w: "sid \<noteq> []
            \<and> fetch_session ev token org_uuid sid = Inr sd
            \<and> existing = query_conversation s sid
            \<and> needs_update existing sd
            \<and> output_dir = path_join ev storage_path sid
            \<and> makedirs ev output_dir = None
            \<and> generate_html_from_session_data ev sd output_dir github_repo = None
            \<and> src = ''web''
            \<and> first_msg = web_first_message sd
          \<longrightarrow> sync_web_loop ev storage_path github_repo token org_uuid
                (\<lparr>session_id_info = Some sid\<rparr> # infos) (s, n)
              = sync_web_loop ev storage_path github_repo token org_uuid infos (s2, n + 1)"
    using r by (auto simp: sync_web_step_def sync_web_session_def Let_def)
  show ?thesis using r c l w by blast
qed


lemma example_render_fails:
  "sync_local_session example_env ''out'' None example_db (''p/c.jsonl'', ''s'') =
     (Inl (CollaboratorError ''render''), example_db)"
  by (simp add: sync_local_session_def example_env_def example_db_def example_tables_def
        query_conversation_def needs_update_def Let_def)

lemma example_fetch_fails:
  "sync_web_session example_env ''out'' None ''tok'' ''org'' example_db ''w'' =
     (Inl (CollaboratorError ''fetch''), example_db)"
  by (simp add: sync_web_session_def example_env_def)

theorem session_failure_isolated_witness:
  "sync_local_loop example_env ''out'' None [(''p/c.jsonl'', ''s'')] (example_db, 0) =
     (rollback example_db, 0)
   \<and> committed (rollback example_db) = committed example_db
   \<and> sync_web_loop example_env ''out'' None ''tok'' ''org''
       [\<lparr>session_id_info = Some ''w''\<rparr>] (example_db, 0) = (rollback example_db, 0)"
proof -
  have ne: "''w'' \<noteq> []" by simp
  have l: "sync_local_loop example_env ''out'' None [(''p/c.jsonl'', ''s'')] (example_db, 0) =
             sync_local_loop example_env ''out'' None [] (rollback example_db, 0)
           \<and> committed (rollback example_db) = committed example_db
           \<and> working (rollback example_db) = committed example_db"
    using session_failure_isolated[where ev = example_env and storage_path = "''out''"
        and github_repo = None and s = example_db and item = "(''p/c.jsonl'', ''s'')"
        and e = "CollaboratorError ''render''" and ?s1.0 = example_db and items = "[]" and n = 0]
      example_render_fails by blast
  have w: "sync_web_loop example_env ''out'' None ''tok'' ''org''
             [\<lparr>session_id_info = Some ''w''\<rparr>] (example_db, 0) =
           sync_web_loop example_env ''out'' None ''tok'' ''org'' [] (rollback example_db, 0)"
    using session_failure_isolated[where ev = example_env and storage_path = "''out''"
        and github_repo = None and s = example_db and sid = "''w''" and token = "''tok''"
        and org_uuid = "''org''"
        and e = "CollaboratorError ''fetch''" and ?s1.0 = example_db and infos = "[]" and n = 0]
      example_fetch_fails ne by blast
  show ?thesis using l w by simp
qed

lemma example_upsert:
  "upsert_conversation example_env (query_conversation example_db ''a'') ''a'' ''local''
     (int (length (get_loglines
        \<lparr>loglines = Some [\<lparr>content = Str ''q1''\<rparr>, \<lparr>content = Str ''q2''\<rparr>]\<rparr>)))
     ''out/a'' (Some ''new summary'') example_db =
   (Inr 1,
    example_db\<lparr>clock := 11,
      working := example_tables\<lparr>conversations :=
        [\<lparr>id_conv = 1, session_id = ''a'', source = ''local'', last_updated = 10,
          message_count = 2, html_path = ''out/a'', first_message = Some ''new summary'',
          created_at_conv = 3\<rparr>]\<rparr>\<rparr>)"
  by (simp add: upsert_conversation_def update_conversation_def query_conversation_def
        example_env_def example_db_def example_tables_def get_loglines_def Let_def)

lemma example_extract:
  "extract_user_queries
     \<lparr>loglines = Some [\<lparr>content = Str ''q1''\<rparr>, \<lparr>content = Str ''q2''\<rparr>]\<rparr> 5 =
   Inr [(0, ''q1'', 1), (1, ''q2'', 1)]"
  by (simp add: extract_user_queries_def get_loglines_def strip_def isspace_def)

lemma example_store_fails:
  "store_embeddings (embedding_service example_env) s 1 (or_empty (Some ''new summary''))
     [(0, ''q1'', 1), (1, ''q2'', 1)] =
   (Some EncoderError,
    snd (store_embeddings (embedding_service example_env) s 1 (or_empty (Some ''new summary''))
           [(0, ''q1'', 1), (1, ''q2'', 1)]))"
  by (simp add: store_embeddings_def store_summary_def store_messages_def example_env_def
        example_encoder_def or_empty_def split: prod.splits)

theorem embedding_failure_keeps_update_witness:
  "snd (sync_local_loop example_env ''out'' None [(''p/a.jsonl'', ''new summary'')]
          (example_db, 0)) = 1
   \<and> map message_count
         (conversations (committed (fst
            (sync_local_loop example_env ''out'' None [(''p/a.jsonl'', ''new summary'')]
               (example_db, 0))))) = [2]"
proof -
  let ?sd = "\<lparr>loglines = Some [\<lparr>content = Str ''q1''\<rparr>, \<lparr>content = Str ''q2''\<rparr>]\<rparr>"
  let ?s1 = "example_db\<lparr>clock := 11,
      working := example_tables\<lparr>conversations :=
        [\<lparr>id_conv = 1, session_id = ''a'', source = ''local'', last_updated = 10,
          message_count = 2, html_path = ''out/a'', first_message = Some ''new summary'',
          created_at_conv = 3\<rparr>]\<rparr>\<rparr>"
  let ?s2 = "snd (store_embeddings (embedding_service example_env) (commit ?s1) 1
                    (or_empty (Some ''new summary'')) [(0, ''q1'', 1), (1, ''q2'', 1)])"
  have pre: "parse_session_file example_env ''p/a.jsonl'' = Inr ?sd
      \<and> ''a'' = path_stem example_env ''p/a.jsonl''
      \<and> query_conversation example_db ''a'' = query_conversation example_db ''a''
      \<and> needs_update (query_conversation example_db ''a'') ?sd
      \<and> ''out/a'' = path_join example_env ''out'' ''a''
      \<and> makedirs example_env ''out/a'' = None
      \<and> generate_html example_env ''p/a.jsonl'' ''out/a'' None = None
      \<and> ''local'' = ''local''
      \<and> Some ''new summary'' = local_first_message ''new summary''"
    by (simp add: example_env_def example_db_def example_tables_def query_conversation_def
          needs_update_def get_loglines_def local_first_message_def)
  from embedding_failure_keeps_update[OF example_upsert example_extract example_store_fails,
      where session_path = "''p/a.jsonl''" and storage_path = "''out''" and github_repo = None
        and summary = "''new summary''" and items = "[]" and n = 0]
  have c: "committed ?s2 = working ?s1"
    and l: "parse_session_file example_env ''p/a.jsonl'' = Inr ?sd
      \<and> ''a'' = path_stem example_env ''p/a.jsonl''
      \<and> query_conversation example_db ''a'' = query_conversation example_db ''a''
      \<and> needs_update (query_conversation example_db ''a'') ?sd
      \<and> ''out/a'' = path_join example_env ''out'' ''a''
      \<and> makedirs example_env ''out/a'' = None
      \<and> generate_html example_env ''p/a.jsonl'' ''out/a'' None = None
      \<and> ''local'' = ''local''
      \<and> Some ''new summary'' = local_first_message ''new summary''
      \<longrightarrow> sync_local_loop example_env ''out'' None [(''p/a.jsonl'', ''new summary'')]
            (example_db, 0)
          = sync_local_loop example_env ''out'' None [] (?s2, 0 + 1)"
    by blast+
  from l pre have "sync_local_loop example_env ''out'' None [(''p/a.jsonl'', ''new summary'')]
            (example_db, 0) = sync_local_loop example_env ''out'' None [] (?s2, 0 + 1)"
    by (rule mp)
  then have "sync_local_loop example_env ''out'' None [(''p/a.jsonl'', ''new summary'')]
            (example_db, 0) = (?s2, 1)"
    by simp
  then show ?thesis using c by simp
qed


lemmas example_defs =
  example_env_def example_encoder_def example_db_def example_tables_def

lemmas sync_defs =
  sync_local_sessions_def sync_local_step_def sync_local_session_def record_session_def
  upsert_conversation_def update_conversation_def create_conversation_def embed_session_def
  store_embeddings_def store_summary_def store_messages_def delete_embeddings_def
  add_conversation_embedding_def add_message_embedding_def commit_def rollback_def
  query_conversation_def needs_update_def get_loglines_def extract_user_queries_def
  local_first_message_def or_empty_def stored_summaries_def stored_messages_def
  conv_embeddings_of_def msg_embeddings_of_def strip_def isspace_def

text \<open>
  C1 asks that a failure between the deletes and the commit of \<open>store_embeddings\<close>
  leaves the stored embeddings of the conversation as they were. The code has no
  rollback on that path: in a run over two local sessions where the batch encoding of
  the first fails, the commit of the second session makes the half-done replacement of
  the first durable. Conversation 1 ends with the new summary and with no message row,
  where it had the old summary and one message row.
\<close>

theorem store_embeddings_failure_becomes_visible:
  "stored_summaries 1 (committed example_db) = [''old summary'']
   \<and> stored_messages 1 (committed example_db) = [(0, ''old question'', 1)]
   \<and> fst (store_embeddings example_encoder example_db 1 ''new summary''
           [(0, ''q1'', 1), (1, ''q2'', 1)]) = Some EncoderError
   \<and> snd (sync_local_sessions example_env example_db ''out'' None 100 None) = 2
   \<and> stored_summaries 1
        (committed (fst (sync_local_sessions example_env example_db ''out'' None 100 None)))
      = [''new summary'']
   \<and> stored_messages 1
        (committed (fst (sync_local_sessions example_env example_db ''out'' None 100 None)))
      = []"
  by (simp add: example_defs sync_defs Let_def)


section \<open>The length of stored summaries\<close>

lemma or_empty_local: "or_empty (local_first_message summary) = take 200 summary"
  by (simp add: or_empty_def local_first_message_def)

lemma first_string_content_short:
  "first_string_content ls = Some t \<Longrightarrow> length t \<le> 200"
  by (induction ls) (auto split: content_value.splits if_splits)

lemma or_empty_web_short: "length (or_empty (web_first_message sd)) \<le> 200"
  by (auto simp: or_empty_def web_first_message_def
      split: option.splits dest: first_string_content_short)

lemma store_embeddings_short:
  assumes "length summary \<le> 200"
    and "summaries_short (working s)" and "summaries_short (committed s)"
  shows "summaries_short (working (snd (store_embeddings enc s cid summary user_queries)))
       \<and> summaries_short (committed (snd (store_embeddings enc s cid summary user_queries)))"
  using assms
  by (auto simp: store_embeddings_def store_summary_def store_messages_def summaries_short_def
        delete_embeddings_def add_conversation_embedding_def commit_def
        add_message_embeddings_fields list_all_iff
      split: prod.splits option.splits sum.splits if_splits)


lemma upsert_conversation_embeddings:
  "upsert_conversation ev existing sid src n output_dir first_msg s = (r, s1) \<Longrightarrow>
   conversation_embeddings (working s1) = conversation_embeddings (working s)
   \<and> committed s1 = committed s"
  by (auto simp: upsert_conversation_def update_conversation_def create_conversation_def Let_def
      split: option.splits if_splits)

lemma record_session_short:
  assumes len: "length (or_empty first_msg) \<le> 200"
    and w: "summaries_short (working s)" and c: "summaries_short (committed s)"
  shows "summaries_short
           (working (snd (record_session ev s existing sid src sd output_dir first_msg)))
       \<and> summaries_short
           (committed (snd (record_session ev s existing sid src sd output_dir first_msg)))"
proof (cases "upsert_conversation ev existing sid src (int (length (get_loglines sd)))
                output_dir first_msg s")
  case (Pair r s1)
  from upsert_conversation_embeddings[OF Pair]
  have w1: "summaries_short (working s1)" and c1: "summaries_short (committed s1)"
    using w c by (simp_all add: summaries_short_def)
  show ?thesis
  proof (cases r)
    case (Inl e)
    then show ?thesis using Pair w1 c1 by (simp add: record_session_def)
  next
    case (Inr cid)
    have k: "summaries_short (working (commit s1))" "summaries_short (committed (commit s1))"
      using w1 by (simp_all add: commit_def)
    show ?thesis
    proof (cases "extract_user_queries sd 5")
      case (Inl e)
      then show ?thesis using Pair Inr k by (simp add: record_session_def embed_session_def)
    next
      case (Inr user_queries)
      then show ?thesis
        using Pair \<open>r = Inr cid\<close> store_embeddings_short[OF len k]
        by (simp add: record_session_def embed_session_def)
    qed
  qed
qed

lemma sync_local_session_short:
  assumes "summaries_short (working s)" and "summaries_short (committed s)"
  shows "summaries_short
           (working (snd (sync_local_session ev storage_path github_repo s item)))
       \<and> summaries_short
           (committed (snd (sync_local_session ev storage_path github_repo s item)))"
proof -
  have len: "length (or_empty (local_first_message (snd item))) \<le> 200"
    by (simp add: or_empty_local)
  show ?thesis
    using assms record_session_short[OF len assms]
    by (cases item)
       (auto simp: sync_local_session_def Let_def split: sum.splits option.splits)
qed

lemma sync_web_session_short:
  assumes "summaries_short (working s)" and "summaries_short (committed s)"
  shows "summaries_short
           (working (snd (sync_web_session ev storage_path github_repo token org_uuid s sid)))
       \<and> summaries_short
           (committed (snd (sync_web_session ev storage_path github_repo token org_uuid s sid)))"
  using assms record_session_short[OF or_empty_web_short assms]
  by (auto simp: sync_web_session_def Let_def split: sum.splits option.splits)

lemma sync_local_step_short:
  assumes "summaries_short (working (fst st))" and "summaries_short (committed (fst st))"
  shows "summaries_short (working (fst (sync_local_step ev storage_path github_repo st item)))
       \<and> summaries_short (committed (fst (sync_local_step ev storage_path github_repo st item)))"
  using sync_local_session_short[OF assms, of ev storage_path github_repo item]
  by (cases st) (auto simp: sync_local_step_def rollback_def split: prod.splits sum.splits)

lemma sync_web_step_short:
  assumes "summaries_short (working (fst st))" and "summaries_short (committed (fst st))"
  shows "summaries_short
           (working (fst (sync_web_step ev storage_path github_repo token org_uuid st info)))
       \<and> summaries_short
           (committed (fst (sync_web_step ev storage_path github_repo token org_uuid st info)))"
proof (cases st)
  case (Pair s n)
  show ?thesis
  proof (cases "session_id_info info")
    case None
    then show ?thesis using assms Pair by (simp add: sync_web_step_def)
  next
    case (Some sid)
    show ?thesis
      using sync_web_session_short[OF assms, of ev storage_path github_repo token org_uuid sid]
        assms Pair Some
      by (auto simp: sync_web_step_def rollback_def split: prod.splits sum.splits)
  qed
qed

lemma sync_local_loop_short:
  "summaries_short (working (fst st)) \<Longrightarrow> summaries_short (committed (fst st)) \<Longrightarrow>
   summaries_short (working (fst (sync_local_loop ev storage_path github_repo items st)))
   \<and> summaries_short (committed (fst (sync_local_loop ev storage_path github_repo items st)))"
proof (induction items arbitrary: st)
  case Nil
  then show ?case by simp
next
  case (Cons item items)
  from sync_local_step_short[OF Cons.prems, of ev storage_path github_repo item]
  show ?case using Cons.IH by simp
qed

lemma sync_web_loop_short:
  "summaries_short (working (fst st)) \<Longrightarrow> summaries_short (committed (fst st)) \<Longrightarrow>
   summaries_short
     (working (fst (sync_web_loop ev storage_path github_repo token org_uuid infos st)))
   \<and> summaries_short
     (committed (fst (sync_web_loop ev storage_path github_repo token org_uuid infos st)))"
proof (induction infos arbitrary: st)
  case Nil
  then show ?case by simp
next
  case (Cons info infos)
  from sync_web_step_short[OF Cons.prems, of ev storage_path github_repo token org_uuid info]
  show ?case using Cons.IH by simp
qed

text \<open>
  C10: the summary that either loop hands to \<open>store_embeddings\<close> is the preview cut
  at 200 characters or the empty string, so it has at most 200 characters and the cut
  at 500 leaves it as it is; and when every stored summary text has at most 200
  characters before \<open>sync_local_sessions\<close> or \<open>sync_web_sessions\<close>, every
  stored summary text has at most 200 characters after it, in the committed and in the
  working tables.
\<close>

theorem summary_text_at_most_200:
  "or_empty (local_first_message summary) = take 200 summary
   \<and> length (or_empty (local_first_message summary)) \<le> 200
   \<and> take 500 (or_empty (local_first_message summary)) = or_empty (local_first_message summary)
   \<and> length (or_empty (web_first_message sd)) \<le> 200
   \<and> take 500 (or_empty (web_first_message sd)) = or_empty (web_first_message sd)
   \<and> (summaries_short (working s) \<and> summaries_short (committed s) \<longrightarrow>
        summaries_short (working (fst
          (sync_local_sessions ev s storage_path claude_projects_dir limit github_repo)))
      \<and> summaries_short (committed (fst
          (sync_local_sessions ev s storage_path claude_projects_dir limit github_repo)))
      \<and> summaries_short (working (fst
          (sync_web_sessions ev s storage_path token org_uuid limit github_repo)))
      \<and> summaries_short (committed (fst
          (sync_web_sessions ev s storage_path token org_uuid limit github_repo))))"
proof (intro conjI impI)
  show "or_empty (local_first_message summary) = take 200 summary"
    by (rule or_empty_local)
  show "length (or_empty (local_first_message summary)) \<le> 200"
    by (simp add: or_empty_local)
  show "take 500 (or_empty (local_first_message summary)) = or_empty (local_first_message summary)"
    by (simp add: or_empty_local)
  show "length (or_empty (web_first_message sd)) \<le> 200"
    by (rule or_empty_web_short)
  show "take 500 (or_empty (web_first_message sd)) = or_empty (web_first_message sd)"
    using or_empty_web_short[of sd] by simp
next
  assume a: "summaries_short (working s) \<and> summaries_short (committed s)"
  then have w: "summaries_short (working (fst (s, 0::int)))"
    and c: "summaries_short (committed (fst (s, 0::int)))" by simp_all
  have l: "summaries_short (working (fst
          (sync_local_sessions ev s storage_path claude_projects_dir limit github_repo)))
      \<and> summaries_short (committed (fst
          (sync_local_sessions ev s storage_path claude_projects_dir limit github_repo)))"
    using a sync_local_loop_short[OF w c]
    by (auto simp: sync_local_sessions_def Let_def split: sum.splits)
  have b: "summaries_short (working (fst
          (sync_web_sessions ev s storage_path token org_uuid limit github_repo)))
      \<and> summaries_short (committed (fst
          (sync_web_sessions ev s storage_path token org_uuid limit github_repo)))"
    using a sync_web_loop_short[OF w c]
    by (auto simp: sync_web_sessions_def split: sum.splits prod.splits)
  show "summaries_short (working (fst
          (sync_local_sessions ev s storage_path claude_projects_dir limit github_repo)))"
    "summaries_short (committed (fst
          (sync_local_sessions ev s storage_path claude_projects_dir limit github_repo)))"
    "summaries_short (working (fst
          (sync_web_sessions ev s storage_path token org_uuid limit github_repo)))"
    "summaries_short (committed (fst
          (sync_web_sessions ev s storage_path token org_uuid limit github_repo)))"
    using l b by simp_all
qed

theorem summary_text_at_most_200_witness:
  "summaries_short (working example_db) \<and> summaries_short (committed example_db)
   \<and> summaries_short (committed (fst
          (sync_local_sessions example_env example_db ''out'' None 100 None)))
   \<and> summaries_short (committed (fst
          (sync_web_sessions example_env example_db ''out'' None None 100 None)))"
proof -
  have h: "summaries_short (working example_db) \<and> summaries_short (committed example_db)"
    by (simp add: summaries_short_def example_db_def example_tables_def)
  show ?thesis
    using h summary_text_at_most_200[of "''s''" "\<lparr>loglines = None\<rparr>" example_db example_env
        "''out''" None 100 None None None]
    by blast
qed


section \<open>Search\<close>

lemma example_formats:
  "format_03d 1 = ''001''" "str_int 0 = ''0''" "str_int 3 = ''3''"
  by code_simp+

lemmas search_defs =
  search_transcripts_def conv_query_def msg_query_def sql_limit_def py_prefix_def
  conv_result_def msg_result_def msg_url_def example_formats
  cosine_distance_def dot_def one_minus_def order_by_def pg_le_def
  list_sort_reverse_def is_num_def the_num_def float_lt_def cpython_sort_def

lemma example_search_3:
  "search_transcripts cosine_distance query_encoder search_db ''parser bug'' 3 =
     Inr [summary_hit, message_hit, opposite_hit]"
  by (simp add: search_defs query_encoder_def search_db_def search_tables_def
        summary_hit_def message_hit_def opposite_hit_def)

lemma example_search_2:
  "search_transcripts cosine_distance query_encoder search_db ''parser bug'' 2 =
     Inr [summary_hit, message_hit]"
  by (simp add: search_defs query_encoder_def search_db_def search_tables_def
        summary_hit_def message_hit_def opposite_hit_def)

lemma example_search_nan:
  "search_transcripts cosine_distance query_encoder nan_db ''parser bug'' 2 =
     Inr [orthogonal_hit, nan_hit]"
  by (simp add: search_defs query_encoder_def nan_db_def nan_tables_def
        orthogonal_hit_def nan_hit_def)


lemma sql_limit_Inr:
  "sql_limit n xs = Inr ys \<Longrightarrow> 0 \<le> n \<and> ys = take (nat n) xs"
  by (simp add: sql_limit_def split: if_splits)

lemma set_insert_by: "set (insert_by le x xs) = insert x (set xs)"
  by (induction xs) auto

lemma set_order_by: "set (order_by le xs) = set xs"
  by (induction xs) (simp_all add: order_by_def set_insert_by)

lemma is_num_one_minus: "is_num (one_minus f) = is_num f"
  by (cases f) (simp_all add: is_num_def one_minus_def)

lemma conv_query_rows:
  assumes "conv_query distance s q limit = Inr rows"
  shows "0 \<le> limit" and "int (length rows) \<le> limit"
    and "\<forall>r \<in> set rows.
           match_type (conv_result r) = ''summary''
         \<and> page_number_r (conv_result r) = None \<and> message_index_r (conv_result r) = None
         \<and> (\<exists>e \<in> set (conversation_embeddings (working s)).
               similarity (conv_result r) = one_minus (distance (embedding_ce e) q))"
proof -
  let ?all = "map (\<lambda>(ce, c). (conversation_id_ce ce, summary_text ce, session_id c, source c,
                        first_message c, one_minus (distance (embedding_ce ce) q),
                        ''summary'', None :: int option, None :: int option))
          (order_by (\<lambda>(ce, c) (ce', c'). pg_le (distance (embedding_ce ce) q)
                                              (distance (embedding_ce ce') q))
             (concat (map (\<lambda>ce. map (Pair ce)
                                 (filter (\<lambda>c. id_conv c = conversation_id_ce ce)
                                    (conversations (working s))))
                        (conversation_embeddings (working s)))))"
  from assms have l: "0 \<le> limit" and r: "rows = take (nat limit) ?all"
    using sql_limit_Inr[of limit ?all rows] by (simp_all add: conv_query_def)
  show "0 \<le> limit" by (rule l)
  show "int (length rows) \<le> limit" using l r by simp
  have "set rows \<subseteq> set ?all" unfolding r by (rule set_take_subset)
  then show "\<forall>r \<in> set rows.
           match_type (conv_result r) = ''summary''
         \<and> page_number_r (conv_result r) = None \<and> message_index_r (conv_result r) = None
         \<and> (\<exists>e \<in> set (conversation_embeddings (working s)).
               similarity (conv_result r) = one_minus (distance (embedding_ce e) q))"
    by (fastforce simp: conv_result_def set_order_by)
qed

lemma msg_query_rows:
  assumes "msg_query distance s q limit = Inr rows"
  shows "0 \<le> limit" and "int (length rows) \<le> limit"
    and "\<forall>r \<in> set rows.
           match_type (msg_result r) = ''message''
         \<and> page_number_r (msg_result r) \<noteq> None \<and> message_index_r (msg_result r) \<noteq> None
         \<and> (\<exists>e \<in> set (message_embeddings (working s)).
               similarity (msg_result r) = one_minus (distance (embedding_me e) q))"
proof -
  let ?all = "map (\<lambda>(me, c). (conversation_id_me me, message_text me, session_id c, source c,
                        first_message c, one_minus (distance (embedding_me me) q),
                        ''message'', Some (page_number me), Some (message_index me)))
          (order_by (\<lambda>(me, c) (me', c'). pg_le (distance (embedding_me me) q)
                                              (distance (embedding_me me') q))
             (concat (map (\<lambda>me. map (Pair me)
                                 (filter (\<lambda>c. id_conv c = conversation_id_me me)
                                    (conversations (working s))))
                        (message_embeddings (working s)))))"
  from assms have l: "0 \<le> limit" and r: "rows = take (nat limit) ?all"
    using sql_limit_Inr[of limit ?all rows] by (simp_all add: msg_query_def)
  show "0 \<le> limit" by (rule l)
  show "int (length rows) \<le> limit" using l r by simp
  have "set rows \<subseteq> set ?all" unfolding r by (rule set_take_subset)
  then show "\<forall>r \<in> set rows.
           match_type (msg_result r) = ''message''
         \<and> page_number_r (msg_result r) \<noteq> None \<and> message_index_r (msg_result r) \<noteq> None
         \<and> (\<exists>e \<in> set (message_embeddings (working s)).
               similarity (msg_result r) = one_minus (distance (embedding_me e) q))"
    by (fastforce simp: msg_result_def set_order_by)
qed

lemma search_transcripts_Inr:
  assumes "search_transcripts distance enc s query limit = Inr results"
  shows "\<exists>qv cs ms. encode_single enc query = Inr qv
           \<and> conv_query distance s qv limit = Inr cs \<and> msg_query distance s qv limit = Inr ms
           \<and> results = py_prefix limit
               (list_sort_reverse (map conv_result cs @ map msg_result ms))"
  using assms by (auto simp: search_transcripts_def split: sum.splits)

lemma set_binary_insert: "set (binary_insert lt pivot xs) = insert pivot (set xs)"
proof -
  have "set (take k xs @ pivot # drop k xs) = insert pivot (set xs)" for k
    using set_append[of "take k xs" "drop k xs"] by simp
  then show ?thesis by (simp add: binary_insert_def Let_def)
qed

lemma set_binarysort: "set (binarysort lt sorted_part rest) = set sorted_part \<union> set rest"
  by (induction rest arbitrary: sorted_part) (auto simp: set_binary_insert)

lemma set_cpython_sort: "set (cpython_sort lt xs) = set xs"
proof (cases "length xs < 2")
  case True
  then show ?thesis by (simp add: cpython_sort_def)
next
  case False
  obtain n d where c: "count_run lt xs = (n, d)" by (cases "count_run lt xs")
  have "set (take n xs) \<union> set (drop n xs) = set xs"
    using set_append[of "take n xs" "drop n xs"] by simp
  then show ?thesis using False c by (simp add: cpython_sort_def set_binarysort)
qed

lemma set_list_sort_reverse: "set (list_sort_reverse rs) = set rs"
  by (simp add: list_sort_reverse_def set_cpython_sort)

lemma descending_list_sort_reverse:
  assumes "list_all (\<lambda>r. is_num (similarity r)) rs"
  shows "descending (take k (list_sort_reverse rs))"
proof -
  let ?ys = "sort_key (\<lambda>r. - the_num (similarity r)) rs"
  have "sorted (map (\<lambda>r. - the_num (similarity r)) ?ys)"
    by (rule sorted_sort_key)
  then have a: "sorted_wrt (\<lambda>a b. the_num (similarity b) \<le> the_num (similarity a)) ?ys"
    by (simp add: sorted_map)
  have n: "\<forall>r \<in> set ?ys. is_num (similarity r)"
    using assms by (simp add: list_all_iff)
  have "sorted_wrt (\<lambda>a b. float_le (similarity b) (similarity a)) ?ys"
  proof (rule sorted_wrt_mono_rel[OF _ a])
    fix x y assume "x \<in> set ?ys" "y \<in> set ?ys"
      and "the_num (similarity y) \<le> the_num (similarity x)"
    then show "float_le (similarity y) (similarity x)"
      using n by (auto simp: float_le_def is_num_def the_num_def split: pyfloat.splits)
  qed
  then have "sorted_wrt (\<lambda>a b. float_le (similarity b) (similarity a)) (take k ?ys)"
    by (rule sorted_wrt_take)
  then show ?thesis using assms by (simp add: descending_def list_sort_reverse_def)
qed

lemma search_result_origin:
  assumes "conv_query distance s qv limit = Inr cs" and "msg_query distance s qv limit = Inr ms"
    and "r \<in> set (py_prefix limit
               (list_sort_reverse (map conv_result cs @ map msg_result ms)))"
  shows "r \<in> conv_result ` set cs \<or> r \<in> msg_result ` set ms"
proof -
  have "0 \<le> limit" using conv_query_rows(1)[OF assms(1)] .
  then have "r \<in> set (take (nat limit)
               (list_sort_reverse (map conv_result cs @ map msg_result ms)))"
    using assms(3) by (simp add: py_prefix_def)
  then have "r \<in> set (list_sort_reverse (map conv_result cs @ map msg_result ms))"
    by (rule in_set_takeD)
  then show ?thesis by (auto simp: set_list_sort_reverse)
qed

lemma candidate_similarity:
  assumes c: "conv_query distance s qv limit = Inr cs"
    and m: "msg_query distance s qv limit = Inr ms"
    and r: "r \<in> conv_result ` set cs \<or> r \<in> msg_result ` set ms"
  shows "\<exists>v \<in> set (stored_vectors s). similarity r = one_minus (distance v qv)"
  using r conv_query_rows(3)[OF c] msg_query_rows(3)[OF m]
  by (fastforce simp: stored_vectors_def)


text \<open>
  C5, as the specification states it: the results are in order of non-increasing
  similarity, for every query. A stored zero vector has the distance NaN to every
  query vector; with limit 2 the search then returns a result of similarity 0 followed
  by one of similarity NaN, which is not an ordered list, and leaves out the message
  of similarity 1.
\<close>

theorem search_unsorted_counterexample:
  "search_transcripts cosine_distance query_encoder nan_db ''parser bug'' 2 =
     Inr [orthogonal_hit, nan_hit]
   \<and> \<not> descending [orthogonal_hit, nan_hit]"
  using example_search_nan
  by (simp add: descending_def float_le_def orthogonal_hit_def nan_hit_def)

text \<open>
  C5, amended: a search that returns gives at most \<open>limit\<close> results; each of the two
  queries yields at most \<open>limit\<close> rows, and the result is the merged list, sorted and
  cut at \<open>limit\<close> again; the results are in order of non-increasing similarity when
  no stored vector has the distance NaN to the query vector; a result of type
  \<open>message\<close> has a page number and a message index, a result of type \<open>summary\<close>
  has neither.
\<close>

theorem search_transcripts_bounded_sorted:
  assumes "search_transcripts distance enc s query limit = Inr results"
  shows "int (length results) \<le> limit
       \<and> (\<exists>qv cs ms. encode_single enc query = Inr qv
             \<and> conv_query distance s qv limit = Inr cs \<and> int (length cs) \<le> limit
             \<and> msg_query distance s qv limit = Inr ms \<and> int (length ms) \<le> limit
             \<and> results = py_prefix limit
                 (list_sort_reverse (map conv_result cs @ map msg_result ms))
             \<and> (no_nan_distance distance s qv \<longrightarrow> descending results))
       \<and> (\<forall>r \<in> set results.
            (match_type r = ''message'' \<longrightarrow>
               page_number_r r \<noteq> None \<and> message_index_r r \<noteq> None)
          \<and> (match_type r = ''summary'' \<longrightarrow>
               page_number_r r = None \<and> message_index_r r = None))"
proof -
  obtain qv cs ms where
    q: "encode_single enc query = Inr qv" and
    c: "conv_query distance s qv limit = Inr cs" and
    m: "msg_query distance s qv limit = Inr ms" and
    r: "results = py_prefix limit
          (list_sort_reverse (map conv_result cs @ map msg_result ms))"
    using search_transcripts_Inr[OF assms] by blast
  let ?cands = "map conv_result cs @ map msg_result ms"
  have pos: "0 \<le> limit" using conv_query_rows(1)[OF c] .
  have tk: "results = take (nat limit) (list_sort_reverse ?cands)"
    using r pos by (simp add: py_prefix_def)
  have len: "int (length results) \<le> limit" using tk pos by simp
  have srt: "no_nan_distance distance s qv \<longrightarrow> descending results"
  proof
    assume nn: "no_nan_distance distance s qv"
    have "\<forall>x \<in> set ?cands. is_num (similarity x)"
    proof
      fix x assume "x \<in> set ?cands"
      then have "x \<in> conv_result ` set cs \<or> x \<in> msg_result ` set ms" by auto
      then obtain v where "v \<in> set (stored_vectors s)"
        and "similarity x = one_minus (distance v qv)"
        using candidate_similarity[OF c m] by blast
      then show "is_num (similarity x)"
        using nn by (simp add: no_nan_distance_def list_all_iff is_num_one_minus)
    qed
    then have "list_all (\<lambda>r. is_num (similarity r)) ?cands"
      by (simp only: list_all_iff)
    then show "descending results"
      unfolding tk by (rule descending_list_sort_reverse)
  qed
  have sub: "\<exists>qv cs ms. encode_single enc query = Inr qv
             \<and> conv_query distance s qv limit = Inr cs \<and> int (length cs) \<le> limit
             \<and> msg_query distance s qv limit = Inr ms \<and> int (length ms) \<le> limit
             \<and> results = py_prefix limit
                 (list_sort_reverse (map conv_result cs @ map msg_result ms))
             \<and> (no_nan_distance distance s qv \<longrightarrow> descending results)"
    using q c m r srt conv_query_rows(2)[OF c] msg_query_rows(2)[OF m] by blast
  have kinds: "\<forall>r \<in> set results.
            (match_type r = ''message'' \<longrightarrow>
               page_number_r r \<noteq> None \<and> message_index_r r \<noteq> None)
          \<and> (match_type r = ''summary'' \<longrightarrow>
               page_number_r r = None \<and> message_index_r r = None)"
  proof
    fix x assume "x \<in> set results"
    then have "x \<in> conv_result ` set cs \<or> x \<in> msg_result ` set ms"
      using search_result_origin[OF c m] r by simp
    then show "(match_type x = ''message'' \<longrightarrow>
               page_number_r x \<noteq> None \<and> message_index_r x \<noteq> None)
          \<and> (match_type x = ''summary'' \<longrightarrow>
               page_number_r x = None \<and> message_index_r x = None)"
      using conv_query_rows(3)[OF c] msg_query_rows(3)[OF m] by auto
  qed
  show ?thesis using len sub kinds by blast
qed

lemma example_no_nan: "no_nan_distance cosine_distance search_db [1, 0]"
  by (simp add: no_nan_distance_def stored_vectors_def search_db_def search_tables_def
        cosine_distance_def dot_def is_num_def)

theorem search_transcripts_bounded_sorted_witness:
  "search_transcripts cosine_distance query_encoder search_db ''parser bug'' 2 =
     Inr [summary_hit, message_hit]
   \<and> no_nan_distance cosine_distance search_db [1, 0]
   \<and> length [summary_hit, message_hit] \<le> 2
   \<and> descending [summary_hit, message_hit]
   \<and> page_number_r message_hit \<noteq> None \<and> page_number_r summary_hit = None"
proof -
  have k: "match_type message_hit = ''message''" "match_type summary_hit = ''summary''"
    by (simp_all add: message_hit_def summary_hit_def)
  have q: "encode_single query_encoder ''parser bug'' = Inr [1, 0]"
    by (simp add: query_encoder_def)
  from search_transcripts_bounded_sorted[OF example_search_2]
  obtain qv where
    e: "encode_single query_encoder ''parser bug'' = Inr qv" and
    d: "no_nan_distance cosine_distance search_db qv \<longrightarrow> descending [summary_hit, message_hit]"
    and n: "page_number_r message_hit \<noteq> None" "page_number_r summary_hit = None"
    using k by auto
  have "qv = [1, 0]" using e q by simp
  then have "descending [summary_hit, message_hit]" using d example_no_nan by simp
  then show ?thesis using example_search_2 example_no_nan n by simp
qed

lemma dot_self_nonneg: "0 \<le> dot a a"
  by (induction a) (simp_all add: dot_def)

lemma dot_Cons: "dot (x # xs) (y # ys) = x * y + dot xs ys"
  by (simp add: dot_def)

lemma cauchy_step:
  fixes x y S A B :: real
  assumes S: "S\<^sup>2 \<le> A * B" and A: "0 \<le> A" and B: "0 \<le> B"
  shows "(x * y + S)\<^sup>2 \<le> (x * x + A) * (y * y + B)"
proof -
  have cross: "2 * (x * y * S) \<le> x * x * B + A * (y * y)"
  proof (cases "A = 0")
    case True
    then have "S\<^sup>2 \<le> 0" using S by simp
    then have "S = 0" by simp
    then show ?thesis using True B by simp
  next
    case False
    then have Apos: "0 < A" using A by simp
    have "0 \<le> (x * S - A * y)\<^sup>2" by simp
    also have "\<dots> = x * x * S\<^sup>2 + A * (A * (y * y)) - A * (2 * (x * y * S))"
      by (simp add: power2_eq_square algebra_simps)
    also have "\<dots> \<le> x * x * (A * B) + A * (A * (y * y)) - A * (2 * (x * y * S))"
      using S by (simp add: mult_left_mono)
    also have "\<dots> = A * (x * x * B + A * (y * y) - 2 * (x * y * S))"
      by (simp add: algebra_simps)
    finally have "0 \<le> A * (x * x * B + A * (y * y) - 2 * (x * y * S))" .
    then have "0 \<le> x * x * B + A * (y * y) - 2 * (x * y * S)"
      using Apos by (simp add: zero_le_mult_iff)
    then show ?thesis by simp
  qed
  have "(x * y + S)\<^sup>2 = x * x * (y * y) + 2 * (x * y * S) + S\<^sup>2"
    by (simp add: power2_eq_square algebra_simps)
  also have "\<dots> \<le> x * x * (y * y) + (x * x * B + A * (y * y)) + A * B"
    using cross S by simp
  also have "\<dots> = (x * x + A) * (y * y + B)"
    by (simp add: algebra_simps)
  finally show ?thesis .
qed

lemma cauchy_schwarz_dot:
  "length a = length b \<Longrightarrow> (dot a b)\<^sup>2 \<le> dot a a * dot b b"
proof (induction a b rule: list_induct2)
  case Nil
  then show ?case by (simp add: dot_def)
next
  case (Cons x xs y ys)
  show ?case
    using cauchy_step[OF Cons.IH dot_self_nonneg dot_self_nonneg, of x y]
    by (simp add: dot_Cons)
qed

lemma cosine_ratio_range:
  assumes "length a = length b"
  shows "- 1 \<le> dot a b / sqrt (dot a a * dot b b) \<and> dot a b / sqrt (dot a a * dot b b) \<le> 1"
proof -
  let ?n = "sqrt (dot a a * dot b b)"
  have "\<bar>dot a b\<bar> = sqrt ((dot a b)\<^sup>2)" by simp
  also have "\<dots> \<le> ?n"
    using cauchy_schwarz_dot[OF assms] by (simp only: real_sqrt_le_iff)
  finally have b: "\<bar>dot a b\<bar> \<le> ?n" .
  have n: "0 \<le> ?n" by (simp add: dot_self_nonneg)
  have "\<bar>dot a b / ?n\<bar> \<le> 1"
  proof (cases "?n = 0")
    case True
    show ?thesis unfolding True by simp
  next
    case False
    then have "0 < ?n" using n by linarith
    then show ?thesis using b by (simp add: abs_le_iff field_simps)
  qed
  then have "dot a b / ?n \<le> 1" and "- (dot a b / ?n) \<le> 1"
    by (simp_all only: abs_le_iff)
  then show ?thesis by linarith
qed

lemma cosine_distance_in_range:
  assumes "length a = length b"
  shows "case cosine_distance a b of NaN \<Rightarrow> True | Num d \<Rightarrow> 0 \<le> d \<and> d \<le> 2"
  using cosine_ratio_range[OF assms] by (simp add: cosine_distance_def)

text \<open>
  C9, as the specification states it: every similarity lies between 0 and 1. A stored
  vector opposite to the query vector is at cosine distance 2, and its result has
  similarity \<open>-1\<close>.
\<close>

theorem similarity_below_zero_counterexample:
  "search_transcripts cosine_distance query_encoder search_db ''parser bug'' 3 =
     Inr [summary_hit, message_hit, opposite_hit]
   \<and> similarity opposite_hit = Num (- 1)
   \<and> \<not> float_le (Num 0) (similarity opposite_hit)"
  using example_search_3 by (simp add: opposite_hit_def float_le_def)

text \<open>
  C9, amended: every result has as similarity 1 minus the distance that the operator
  gives for a stored vector and the query vector. The operator gives NaN or a number
  between 0 and 2 (the cosine distance of two vectors of one dimension is such a value:
  NaN on a zero norm, and within 0 and 2 otherwise); where the distance is a number,
  the similarity is a number between \<open>-1\<close> and 1, and where it is NaN, so is the
  similarity.
\<close>

theorem similarity_between_minus_one_and_one:
  assumes res: "search_transcripts distance enc s query limit = Inr results"
    and q: "encode_single enc query = Inr qv"
    and rng: "distance_in_range distance s qv"
  shows "(\<forall>r \<in> set results.
            \<exists>v \<in> set (stored_vectors s).
              similarity r = one_minus (distance v qv)
            \<and> (is_num (distance v qv) \<longrightarrow>
                 is_num (similarity r)
               \<and> - 1 \<le> the_num (similarity r) \<and> the_num (similarity r) \<le> 1)
            \<and> (\<not> is_num (distance v qv) \<longrightarrow> similarity r = NaN))
       \<and> ((\<forall>v \<in> set (stored_vectors s). length v = length qv) \<longrightarrow>
             distance_in_range cosine_distance s qv)"
proof
  show "\<forall>r \<in> set results.
            \<exists>v \<in> set (stored_vectors s).
              similarity r = one_minus (distance v qv)
            \<and> (is_num (distance v qv) \<longrightarrow>
                 is_num (similarity r)
               \<and> - 1 \<le> the_num (similarity r) \<and> the_num (similarity r) \<le> 1)
            \<and> (\<not> is_num (distance v qv) \<longrightarrow> similarity r = NaN)"
  proof
    fix r assume r: "r \<in> set results"
    obtain cs ms where
      c: "conv_query distance s qv limit = Inr cs" and
      m: "msg_query distance s qv limit = Inr ms" and
      e: "results = py_prefix limit
            (list_sort_reverse (map conv_result cs @ map msg_result ms))"
      using search_transcripts_Inr[OF res] q by auto
    have "r \<in> conv_result ` set cs \<or> r \<in> msg_result ` set ms"
      using search_result_origin[OF c m] r e by simp
    then obtain v where v: "v \<in> set (stored_vectors s)"
      and sim: "similarity r = one_minus (distance v qv)"
      using candidate_similarity[OF c m] by blast
    have "case distance v qv of NaN \<Rightarrow> True | Num d \<Rightarrow> 0 \<le> d \<and> d \<le> 2"
      using rng v by (simp add: distance_in_range_def list_all_iff)
    then have "(is_num (distance v qv) \<longrightarrow>
                 is_num (similarity r)
               \<and> - 1 \<le> the_num (similarity r) \<and> the_num (similarity r) \<le> 1)
            \<and> (\<not> is_num (distance v qv) \<longrightarrow> similarity r = NaN)"
      using sim by (cases "distance v qv") (simp_all add: is_num_def the_num_def one_minus_def)
    then show "\<exists>v \<in> set (stored_vectors s).
              similarity r = one_minus (distance v qv)
            \<and> (is_num (distance v qv) \<longrightarrow>
                 is_num (similarity r)
               \<and> - 1 \<le> the_num (similarity r) \<and> the_num (similarity r) \<le> 1)
            \<and> (\<not> is_num (distance v qv) \<longrightarrow> similarity r = NaN)"
      using v sim by blast
  qed
  show "(\<forall>v \<in> set (stored_vectors s). length v = length qv) \<longrightarrow>
          distance_in_range cosine_distance s qv"
    by (simp add: distance_in_range_def list_all_iff cosine_distance_in_range)
qed

theorem similarity_between_minus_one_and_one_witness:
  "search_transcripts cosine_distance query_encoder search_db ''parser bug'' 3 =
     Inr [summary_hit, message_hit, opposite_hit]
   \<and> stored_vectors search_db = [[1, 0], [0, 1], [- 1, 0]]
   \<and> distance_in_range cosine_distance search_db [1, 0]
   \<and> similarity opposite_hit = one_minus (cosine_distance [- 1, 0] [1, 0])
   \<and> - 1 \<le> the_num (similarity opposite_hit) \<and> the_num (similarity opposite_hit) \<le> 1"
proof -
  have q: "encode_single query_encoder ''parser bug'' = Inr [1, 0]"
    by (simp add: query_encoder_def)
  have sv: "stored_vectors search_db = [[1, 0], [0, 1], [- 1, 0]]"
    by (simp add: stored_vectors_def search_db_def search_tables_def)
  have rng: "distance_in_range cosine_distance search_db [1, 0]"
    by (simp add: distance_in_range_def sv cosine_distance_in_range)
  have o: "similarity opposite_hit = one_minus (cosine_distance [- 1, 0] [1, 0])"
    by (simp add: opposite_hit_def one_minus_def cosine_distance_def dot_def)
  from similarity_between_minus_one_and_one[OF example_search_3 q rng]
  have "\<exists>v \<in> set (stored_vectors search_db).
          similarity opposite_hit = one_minus (cosine_distance v [1, 0])
        \<and> (is_num (cosine_distance v [1, 0]) \<longrightarrow>
             is_num (similarity opposite_hit)
           \<and> - 1 \<le> the_num (similarity opposite_hit) \<and> the_num (similarity opposite_hit) \<le> 1)
        \<and> (\<not> is_num (cosine_distance v [1, 0]) \<longrightarrow> similarity opposite_hit = NaN)"
    by simp
  then have "- 1 \<le> the_num (similarity opposite_hit) \<and> the_num (similarity opposite_hit) \<le> 1"
    by (auto simp: opposite_hit_def is_num_def)
  then show ?thesis using example_search_3 sv rng o by simp
qed

end
